theory Spec2Isabelle
  imports Complex_Main
begin

section \<open>JavaScript values\<close>

text \<open>
  The request handler of \<^verbatim>\<open>src/index.ts\<close> works on untyped JSON payloads.  Numbers are
  modelled as rationals (the IEEE special values NaN and the infinities are left out),
  objects as association lists in property order, and \<^verbatim>\<open>undefined\<close> is a value of its own
  because the handler builds object literals and argument lists that contain it.
\<close>

datatype js =
    JUndefined
  | JNull
  | JBool bool
  | JNum rat
  | JStr string
  | JArr "js list"
  | JObj "(string \<times> js) list"

type_synonym obj = "(string \<times> js) list"

text \<open>JavaScript truthiness, as used by \<^verbatim>\<open>!x\<close>, \<^verbatim>\<open>x && y\<close> and \<^verbatim>\<open>x || y\<close>.\<close>

fun truthy :: "js \<Rightarrow> bool" where
  "truthy JUndefined = False"
| "truthy JNull = False"
| "truthy (JBool b) = b"
| "truthy (JNum n) = (n \<noteq> 0)"
| "truthy (JStr s) = (s \<noteq> [])"
| "truthy (JArr xs) = True"
| "truthy (JObj kvs) = True"

text \<open>Property read \<^verbatim>\<open>args.k\<close> on a parsed arguments object: a missing key reads as \<^verbatim>\<open>undefined\<close>.\<close>

definition read_prop :: "obj \<Rightarrow> string \<Rightarrow> js" where
  "read_prop a k = (case map_of a k of None \<Rightarrow> JUndefined | Some v \<Rightarrow> v)"

text \<open>The rest pattern \<^verbatim>\<open>const { k, ...options } = args\<close>: every property but \<^verbatim>\<open>k\<close>.\<close>

definition rest_without :: "string \<Rightarrow> obj \<Rightarrow> obj" where
  "rest_without k a = filter (\<lambda>kv. fst kv \<noteq> k) a"

text \<open>
  The comparisons \<^verbatim>\<open>v < r\<close> and \<^verbatim>\<open>v > r\<close> against a number literal convert the left operand
  with \<^verbatim>\<open>ToNumber\<close>.  The conversion of \<^verbatim>\<open>undefined\<close> (to \<^verbatim>\<open>NaN\<close>, for which every comparison is
  false), of \<^verbatim>\<open>null\<close> (to 0), of booleans (to 0 and 1) and of numbers is modelled.  A string,
  an array or an object is converted by the engine's parsing of numeric text; that
  conversion is not modelled and \<open>to_number\<close> gives no number there.  The handler compares
  the fields \<^verbatim>\<open>page\<close> and \<^verbatim>\<open>per_page\<close> only, whose static type is \<^verbatim>\<open>number | undefined\<close>; the
  statements below that depend on a comparison are about such values
  (\<open>number_or_undefined\<close>), never about strings, arrays or objects.
\<close>

definition to_number :: "js \<Rightarrow> rat option" where
  "to_number v =
     (case v of
        JNull \<Rightarrow> Some 0
      | JBool b \<Rightarrow> Some (if b then 1 else 0)
      | JNum n \<Rightarrow> Some n
      | _ \<Rightarrow> None)"

definition js_less :: "js \<Rightarrow> rat \<Rightarrow> bool" where
  "js_less v r = (case to_number v of Some n \<Rightarrow> n < r | None \<Rightarrow> False)"

definition js_greater :: "js \<Rightarrow> rat \<Rightarrow> bool" where
  "js_greater v r = (case to_number v of Some n \<Rightarrow> n > r | None \<Rightarrow> False)"

text \<open>The static types \<^verbatim>\<open>number | undefined\<close> and \<^verbatim>\<open>string | undefined\<close> of a parsed field.\<close>

definition number_or_undefined :: "js \<Rightarrow> bool" where
  "number_or_undefined v = (case v of JUndefined \<Rightarrow> True | JNum n \<Rightarrow> True | _ \<Rightarrow> False)"

definition string_or_undefined :: "js \<Rightarrow> bool" where
  "string_or_undefined v = (case v of JUndefined \<Rightarrow> True | JStr s \<Rightarrow> True | _ \<Rightarrow> False)"

text \<open>\<^verbatim>\<open>String.prototype.includes\<close>, used to state what an error message contains.\<close>

fun starts_with :: "string \<Rightarrow> string \<Rightarrow> bool" where
  "starts_with s [] = True"
| "starts_with [] (c # p) = False"
| "starts_with (d # s) (c # p) = (d = c \<and> starts_with s p)"

fun str_includes :: "string \<Rightarrow> string \<Rightarrow> bool" where
  "str_includes [] p = (p = [])"
| "str_includes (d # s) p = (starts_with (d # s) p \<or> str_includes s p)"

text \<open>\<^verbatim>\<open>Array.prototype.join\<close> on strings.\<close>

fun join :: "string \<Rightarrow> string list \<Rightarrow> string" where
  "join sep [] = []"
| "join sep [x] = x"
| "join sep (x # y # ys) = x @ sep @ join sep (y # ys)"

definition apostrophe :: string where
  "apostrophe = [CHR 0x27]"

section \<open>The tool catalog\<close>

text \<open>
  One entry of \<^verbatim>\<open>ALL_TOOLS\<close>.  The field \<open>inputSchema\<close> holds the name of the schema that
  \<^verbatim>\<open>createJsonSchema\<close> is applied to; the conversion itself belongs to an external library.
\<close>

record tool =
  name :: string
  description :: string
  inputSchema :: string
  readOnly :: bool

definition ALL_TOOLS :: "tool list" where
  "ALL_TOOLS = [
    \<lparr>name = ''create_or_update_file'',
     description = ''Create or update a single file in a GitLab project'',
     inputSchema = ''CreateOrUpdateFileSchema'', readOnly = False\<rparr>,
    \<lparr>name = ''search_repositories'',
     description = ''Search for GitLab projects'',
     inputSchema = ''SearchRepositoriesSchema'', readOnly = True\<rparr>,
    \<lparr>name = ''create_repository'',
     description = ''Create a new GitLab project'',
     inputSchema = ''CreateRepositorySchema'', readOnly = False\<rparr>,
    \<lparr>name = ''get_file_contents'',
     description = ''Get the contents of a file or directory from a GitLab project'',
     inputSchema = ''GetFileContentsSchema'', readOnly = True\<rparr>,
    \<lparr>name = ''push_files'',
     description = ''Push multiple files to a GitLab project in a single commit'',
     inputSchema = ''PushFilesSchema'', readOnly = False\<rparr>,
    \<lparr>name = ''create_issue'',
     description = ''Create a new issue in a GitLab project'',
     inputSchema = ''CreateIssueSchema'', readOnly = False\<rparr>,
    \<lparr>name = ''create_merge_request'',
     description = ''Create a new merge request in a GitLab project'',
     inputSchema = ''CreateMergeRequestSchema'', readOnly = False\<rparr>,
    \<lparr>name = ''fork_repository'',
     description = ''Fork a GitLab project to your account or specified namespace'',
     inputSchema = ''ForkRepositorySchema'', readOnly = False\<rparr>,
    \<lparr>name = ''create_branch'',
     description = ''Create a new branch in a GitLab project'',
     inputSchema = ''CreateBranchSchema'', readOnly = False\<rparr>,
    \<lparr>name = ''list_group_projects'',
     description = ''List all projects (repositories) within a specific GitLab group'',
     inputSchema = ''ListGroupProjectsSchema'', readOnly = True\<rparr>,
    \<lparr>name = ''get_project_events'',
     description = ''Get recent events/activities for a GitLab project'',
     inputSchema = ''GetProjectEventsSchema'', readOnly = True\<rparr>,
    \<lparr>name = ''list_commits'',
     description = ''Get commit history for a GitLab project'',
     inputSchema = ''ListCommitsSchema'', readOnly = True\<rparr>,
    \<lparr>name = ''list_issues'',
     description = ''Get issues for a GitLab project'',
     inputSchema = ''ListIssuesSchema'', readOnly = True\<rparr>,
    \<lparr>name = ''list_merge_requests'',
     description = ''Get merge requests for a GitLab project'',
     inputSchema = ''ListMergeRequestsSchema'', readOnly = True\<rparr>,
    \<lparr>name = ''list_project_wiki_pages'',
     description = ''List all wiki pages for a GitLab project'',
     inputSchema = ''ListProjectWikiPagesSchema'', readOnly = True\<rparr>,
    \<lparr>name = ''get_project_wiki_page'',
     description = ''Get a specific wiki page for a GitLab project'',
     inputSchema = ''GetProjectWikiPageSchema'', readOnly = True\<rparr>,
    \<lparr>name = ''create_project_wiki_page'',
     description = ''Create a new wiki page for a GitLab project'',
     inputSchema = ''CreateProjectWikiPageSchema'', readOnly = False\<rparr>,
    \<lparr>name = ''edit_project_wiki_page'',
     description = ''Edit an existing wiki page for a GitLab project'',
     inputSchema = ''EditProjectWikiPageSchema'', readOnly = False\<rparr>,
    \<lparr>name = ''delete_project_wiki_page'',
     description = ''Delete a wiki page from a GitLab project'',
     inputSchema = ''DeleteProjectWikiPageSchema'', readOnly = False\<rparr>,
    \<lparr>name = ''upload_project_wiki_attachment'',
     description = ''Upload an attachment to a GitLab project wiki'',
     inputSchema = ''UploadProjectWikiAttachmentSchema'', readOnly = False\<rparr>,
    \<lparr>name = ''list_group_wiki_pages'',
     description = ''List all wiki pages for a GitLab group'',
     inputSchema = ''ListGroupWikiPagesSchema'', readOnly = True\<rparr>,
    \<lparr>name = ''get_group_wiki_page'',
     description = ''Get a specific wiki page for a GitLab group'',
     inputSchema = ''GetGroupWikiPageSchema'', readOnly = True\<rparr>,
    \<lparr>name = ''create_group_wiki_page'',
     description = ''Create a new wiki page for a GitLab group'',
     inputSchema = ''CreateGroupWikiPageSchema'', readOnly = False\<rparr>,
    \<lparr>name = ''edit_group_wiki_page'',
     description = ''Edit an existing wiki page for a GitLab group'',
     inputSchema = ''EditGroupWikiPageSchema'', readOnly = False\<rparr>,
    \<lparr>name = ''delete_group_wiki_page'',
     description = ''Delete a wiki page from a GitLab group'',
     inputSchema = ''DeleteGroupWikiPageSchema'', readOnly = False\<rparr>,
    \<lparr>name = ''upload_group_wiki_attachment'',
     description = ''Upload an attachment to a GitLab group wiki'',
     inputSchema = ''UploadGroupWikiAttachmentSchema'', readOnly = False\<rparr>,
    \<lparr>name = ''list_project_members'',
     description = ''List all members of a GitLab project (including inherited members)'',
     inputSchema = ''ListProjectMembersSchema'', readOnly = True\<rparr>,
    \<lparr>name = ''list_group_members'',
     description = ''List all members of a GitLab group (including inherited members)'',
     inputSchema = ''ListGroupMembersSchema'', readOnly = True\<rparr>,
    \<lparr>name = ''list_issue_notes'',
     description = ''Fetch all comments and system notes for a GitLab issue'',
     inputSchema = ''ListIssueNotesSchema'', readOnly = True\<rparr>,
    \<lparr>name = ''list_issue_discussions'',
     description = ''Fetch all discussions (threaded comments) for a GitLab issue'',
     inputSchema = ''ListIssueDiscussionsSchema'', readOnly = True\<rparr>,
    \<lparr>name = ''list_pipelines'',
     description = ''List pipelines for a GitLab project'',
     inputSchema = ''ListPipelinesSchema'', readOnly = True\<rparr>,
    \<lparr>name = ''get_pipeline'',
     description = ''Get details of a specific pipeline'',
     inputSchema = ''GetPipelineSchema'', readOnly = True\<rparr>,
    \<lparr>name = ''get_pipeline_jobs'',
     description = ''List jobs in a specific pipeline'',
     inputSchema = ''GetPipelineJobsSchema'', readOnly = True\<rparr>,
    \<lparr>name = ''get_job'',
     description = ''Get details of a specific job'',
     inputSchema = ''GetJobSchema'', readOnly = True\<rparr>,
    \<lparr>name = ''get_job_log'',
     description = ''Get job execution log/trace'',
     inputSchema = ''GetJobLogSchema'', readOnly = True\<rparr>,
    \<lparr>name = ''create_pipeline'',
     description = ''Create a new pipeline'',
     inputSchema = ''CreatePipelineSchema'', readOnly = False\<rparr>,
    \<lparr>name = ''retry_pipeline'',
     description = ''Retry a failed pipeline'',
     inputSchema = ''RetryPipelineSchema'', readOnly = False\<rparr>,
    \<lparr>name = ''cancel_pipeline'',
     description = ''Cancel a running pipeline'',
     inputSchema = ''CancelPipelineSchema'', readOnly = False\<rparr>,
    \<lparr>name = ''retry_job'',
     description = ''Retry a specific job'',
     inputSchema = ''RetryJobSchema'', readOnly = False\<rparr>,
    \<lparr>name = ''cancel_job'',
     description = ''Cancel a running job'',
     inputSchema = ''CancelJobSchema'', readOnly = False\<rparr>,
    \<lparr>name = ''list_projects'',
     description = ''List GitLab projects'',
     inputSchema = ''ListProjectsSchema'', readOnly = True\<rparr>,
    \<lparr>name = ''get_project'',
     description = ''Get project details'',
     inputSchema = ''GetProjectSchema'', readOnly = True\<rparr>,
    \<lparr>name = ''validate_ci_yaml'',
     description = ''Validate GitLab CI YAML configuration using GitLab's lint API'',
     inputSchema = ''ValidateCIYamlSchema'', readOnly = True\<rparr>,
    \<lparr>name = ''get_project_runners'',
     description = ''Get all runners available for a specific project'',
     inputSchema = ''GetProjectRunnersSchema'', readOnly = True\<rparr>,
    \<lparr>name = ''list_shared_runners'',
     description = ''List all shared runners available in the GitLab instance'',
     inputSchema = ''ListSharedRunnersSchema'', readOnly = True\<rparr>,
    \<lparr>name = ''get_runner_details'',
     description = ''Get detailed information about a specific runner'',
     inputSchema = ''GetRunnerDetailsSchema'', readOnly = True\<rparr>,
    \<lparr>name = ''enable_project_runner'',
     description = ''Enable a specific runner for a project'',
     inputSchema = ''EnableProjectRunnerSchema'', readOnly = False\<rparr>,
    \<lparr>name = ''disable_project_runner'',
     description = ''Disable a specific runner for a project'',
     inputSchema = ''DisableProjectRunnerSchema'', readOnly = False\<rparr>,
    \<lparr>name = ''register_runner'',
     description = ''Register a new runner with GitLab'',
     inputSchema = ''RegisterRunnerSchema'', readOnly = False\<rparr>,
    \<lparr>name = ''validate_runner_tags'',
     description = ''Validate runner tags and check available tags for a project'',
     inputSchema = ''ValidateRunnerTagsSchema'', readOnly = True\<rparr>,
    \<lparr>name = ''update_runner_settings'',
     description = ''Update settings and configuration for a specific runner'',
     inputSchema = ''UpdateRunnerSettingsSchema'', readOnly = False\<rparr>,
    \<lparr>name = ''get_runner_jobs'',
     description = ''Get job history and execution details for a specific runner'',
     inputSchema = ''GetRunnerJobsSchema'', readOnly = True\<rparr>,
    \<lparr>name = ''runner_health_check'',
     description = ''Perform health check and status verification for a runner'',
     inputSchema = ''RunnerHealthCheckSchema'', readOnly = True\<rparr>
  ]"

text \<open>What a listing advertises for one tool: \<^verbatim>\<open>({ name, description, inputSchema })\<close>.\<close>

record descriptor =
  d_name :: string
  d_description :: string
  d_inputSchema :: string

definition advertise :: "tool \<Rightarrow> descriptor" where
  "advertise t = \<lparr>d_name = name t, d_description = description t, d_inputSchema = inputSchema t\<rparr>"

text \<open>The handler of \<^verbatim>\<open>ListToolsRequestSchema\<close>; the argument is \<^verbatim>\<open>GITLAB_READ_ONLY_MODE\<close>.\<close>

definition list_tools :: "bool \<Rightarrow> descriptor list" where
  "list_tools read_only_mode =
     (if read_only_mode then map advertise (filter readOnly ALL_TOOLS)
      else map advertise ALL_TOOLS)"

section \<open>Errors, backend calls and replies\<close>

text \<open>
  One entry of \<^verbatim>\<open>ZodError.errors\<close>: the path of the offending field (property names and array
  indices) and the reason.
\<close>

datatype path_elem = Key string | Index nat

datatype zod_issue = Issue (issue_path: "path_elem list") (issue_message: string)

text \<open>
  What can be thrown inside the handler: a \<^verbatim>\<open>ZodError\<close> with its issues, or any other error,
  of which only the message is kept.
\<close>

datatype exn = Error string | ZodError "zod_issue list"

text \<open>
  A call of a method of \<^verbatim>\<open>gitlabApi\<close>: the method name and the argument list.  An argument is
  either a value passed as it is or \<^verbatim>\<open>Number(v)\<close>, kept unevaluated.
\<close>

datatype arg = Val js | NumberOf js

datatype api_call = Call string "arg list"

text \<open>
  The client of \<^verbatim>\<open>gitlab-api.ts\<close> is an external collaborator.  It is a parameter of the model:
  given the calls already issued during this invocation and the next call, it either throws
  or returns a value.
\<close>

type_synonym backend = "api_call list \<Rightarrow> api_call \<Rightarrow> exn + js"

text \<open>
  The reply of a successful invocation.  Serialisation and the formatters of
  \<^verbatim>\<open>formatters.ts\<close> are external and stay symbolic: \<open>Stringify v\<close> is the text
  \<^verbatim>\<open>JSON.stringify(v, null, 2)\<close>, \<open>Raw v\<close> the value itself used as text, \<open>Template\<close> a
  template literal, and \<open>Formatted f v\<close> the envelope that formatter \<open>f\<close> builds from \<open>v\<close>.
\<close>

datatype piece = Lit string | Interp js

datatype text_block = Stringify js | Raw js | Template "piece list"

datatype reply = Content "text_block list" | Formatted string js

text \<open>
  An action threads the list of backend calls issued so far and ends in a thrown error or
  in a value.
\<close>

type_synonym 'a action = "api_call list \<Rightarrow> (exn + 'a) \<times> api_call list"

definition done_with :: "'a \<Rightarrow> 'a action" where
  "done_with x tr = (Inr x, tr)"

definition throw :: "exn \<Rightarrow> 'a action" where
  "throw e tr = (Inl e, tr)"

definition await :: "backend \<Rightarrow> api_call \<Rightarrow> js action" where
  "await be c tr = (be tr c, tr @ [c])"

definition and_then :: "'a action \<Rightarrow> ('a \<Rightarrow> 'b action) \<Rightarrow> 'b action" where
  "and_then m k tr = (case m tr of (Inl e, tr') \<Rightarrow> (Inl e, tr') | (Inr x, tr') \<Rightarrow> k x tr')"

section \<open>Configuration and collaborators\<close>

text \<open>
  The handler depends on three things that are not part of \<^verbatim>\<open>src/index.ts\<close>: the
  process-wide flag \<^verbatim>\<open>GITLAB_READ_ONLY_MODE\<close>, the schemas of \<^verbatim>\<open>schemas.ts\<close> (for a schema
  name, \<open>parse\<close> is its \<^verbatim>\<open>.parse\<close>: the issues of a \<^verbatim>\<open>ZodError\<close> or the parsed object) and
  \<^verbatim>\<open>isValidISODate\<close> of \<^verbatim>\<open>utils.ts\<close>.  They are parameters of the model.
\<close>

record config =
  GITLAB_READ_ONLY_MODE :: bool
  parse :: "string \<Rightarrow> js \<Rightarrow> zod_issue list + obj"
  isValidISODate :: "string \<Rightarrow> bool"

record request =
  params_name :: string
  params_arguments :: js

section \<open>The cases of the dispatch switch\<close>

text \<open>\<^verbatim>\<open>const args = Schema.parse(request.params.arguments)\<close> followed by the rest of the case.\<close>

definition with_args :: "config \<Rightarrow> string \<Rightarrow> js \<Rightarrow> (obj \<Rightarrow> 'a action) \<Rightarrow> 'a action" where
  "with_args cfg schema raw k =
     (case parse cfg schema raw of Inl issues \<Rightarrow> throw (ZodError issues) | Inr a \<Rightarrow> k a)"

text \<open>\<^verbatim>\<open>if (cond) { throw new Error(msg) }\<close> followed by the rest of the case.\<close>

definition reject_if :: "bool \<Rightarrow> string \<Rightarrow> 'a action \<Rightarrow> 'a action" where
  "reject_if cond msg k = (if cond then throw (Error msg) else k)"

text \<open>One backend call whose result is returned as pretty-printed JSON.\<close>

definition json_reply :: "backend \<Rightarrow> api_call \<Rightarrow> reply action" where
  "json_reply be c = and_then (await be c) (\<lambda>v. done_with (Content [Stringify v]))"

text \<open>One backend call whose result goes through a formatter.\<close>

definition formatted_reply :: "backend \<Rightarrow> string \<Rightarrow> api_call \<Rightarrow> reply action" where
  "formatted_reply be f c = and_then (await be c) (\<lambda>v. done_with (Formatted f v))"

text \<open>One backend call whose result is dropped; the reply is a fixed template.\<close>

definition template_reply :: "backend \<Rightarrow> api_call \<Rightarrow> piece list \<Rightarrow> reply action" where
  "template_reply be c ps = and_then (await be c) (\<lambda>v. done_with (Content [Template ps]))"

text \<open>
  The pagination checks, repeated verbatim in six cases:
  \<^verbatim>\<open>args.per_page && (args.per_page < 1 || args.per_page > 100)\<close> and
  \<^verbatim>\<open>args.page && args.page < 1\<close>.
\<close>

definition per_page_rejected :: "obj \<Rightarrow> bool" where
  "per_page_rejected a =
     (truthy (read_prop a ''per_page'') \<and>
      (js_less (read_prop a ''per_page'') 1 \<or> js_greater (read_prop a ''per_page'') 100))"

definition page_rejected :: "obj \<Rightarrow> bool" where
  "page_rejected a = (truthy (read_prop a ''page'') \<and> js_less (read_prop a ''page'') 1)"

definition check_pagination :: "obj \<Rightarrow> 'a action \<Rightarrow> 'a action" where
  "check_pagination a k =
     reject_if (per_page_rejected a) ''per_page must be between 1 and 100''
       (reject_if (page_rejected a) ''page must be greater than 0'' k)"

text \<open>
  \<^verbatim>\<open>if (args.since && !isValidISODate(args.since))\<close> in \<^verbatim>\<open>list_commits\<close>; the field has the
  static type \<^verbatim>\<open>string | undefined\<close>.
\<close>

definition truthy_invalid_date :: "config \<Rightarrow> js \<Rightarrow> bool" where
  "truthy_invalid_date cfg v =
     (truthy v \<and> (case v of JStr s \<Rightarrow> \<not> isValidISODate cfg s | _ \<Rightarrow> False))"

definition iso_suffix :: string where
  "iso_suffix = '' must be a valid ISO 8601 date (YYYY-MM-DDTHH:MM:SSZ)''"

text \<open>
  The loop \<^verbatim>\<open>dateFields.forEach\<close> of \<^verbatim>\<open>list_issues\<close> and \<^verbatim>\<open>list_merge_requests\<close>: the first
  field, in the order of the array, whose value is a string that is not a valid date.
\<close>

definition dateFields :: "string list" where
  "dateFields = [''created_after'', ''created_before'', ''updated_after'', ''updated_before'']"

definition string_invalid_date :: "config \<Rightarrow> js \<Rightarrow> bool" where
  "string_invalid_date cfg v = (case v of JStr s \<Rightarrow> \<not> isValidISODate cfg s | _ \<Rightarrow> False)"

definition check_date_fields :: "config \<Rightarrow> obj \<Rightarrow> 'a action \<Rightarrow> 'a action" where
  "check_date_fields cfg a k =
     (case find (\<lambda>f. string_invalid_date cfg (read_prop a f)) dateFields of
        Some f \<Rightarrow> throw (Error (f @ iso_suffix))
      | None \<Rightarrow> k)"

text \<open>
  The loop of \<^verbatim>\<open>push_files\<close>: one \<^verbatim>\<open>createOrUpdateFile\<close> per file, in order; the \<^verbatim>\<open>catch\<close> inside
  the loop logs and rethrows, so the first failure ends the loop.  Reading \<^verbatim>\<open>file.path\<close> of
  \<^verbatim>\<open>null\<close> or \<^verbatim>\<open>undefined\<close> is a \<^verbatim>\<open>TypeError\<close>; on any other value that is not an object it
  is \<^verbatim>\<open>undefined\<close>.
\<close>

definition js_member :: "js \<Rightarrow> string \<Rightarrow> js" where
  "js_member v k = (case v of JObj kvs \<Rightarrow> read_prop kvs k | _ \<Rightarrow> JUndefined)"

definition file_call :: "obj \<Rightarrow> js \<Rightarrow> api_call" where
  "file_call a file =
     Call ''createOrUpdateFile''
       [Val (read_prop a ''project_id''), Val (js_member file ''path''), Val (js_member file ''content''),
        Val (read_prop a ''commit_message''), Val (read_prop a ''branch'')]"

definition nullish :: "js \<Rightarrow> bool" where
  "nullish v = (v = JUndefined \<or> v = JNull)"

fun push_loop :: "backend \<Rightarrow> obj \<Rightarrow> js list \<Rightarrow> js list \<Rightarrow> js list action" where
  "push_loop be a [] results = done_with results"
| "push_loop be a (file # files) results =
     (if nullish file
      then throw (Error (''Cannot read properties of '' @
                         (if file = JNull then ''null'' else ''undefined'') @
                         '' (reading '' @ apostrophe @ ''path'' @ apostrophe @ '')''))
      else and_then (await be (file_call a file))
             (\<lambda>result. push_loop be a files (results @ [result])))"

text \<open>
  \<^verbatim>\<open>for (const file of args.files)\<close>: an array is iterated by element, a string by character,
  anything else is not iterable.
\<close>

definition iterate :: "js \<Rightarrow> js list option" where
  "iterate v = (case v of JArr xs \<Rightarrow> Some xs | JStr s \<Rightarrow> Some (map (\<lambda>c. JStr [c]) s) | _ \<Rightarrow> None)"

definition push_files :: "backend \<Rightarrow> obj \<Rightarrow> reply action" where
  "push_files be a =
     (case iterate (read_prop a ''files'') of
        None \<Rightarrow> throw (Error ''args.files is not iterable'')
      | Some files \<Rightarrow>
          and_then (push_loop be a files [])
            (\<lambda>results. done_with (Content [Stringify (JArr results)])))"

text \<open>
  \<^verbatim>\<open>create_branch\<close>: when \<^verbatim>\<open>args.ref\<close> is falsy, the default branch is asked of the backend
  first.
\<close>

definition create_branch :: "backend \<Rightarrow> obj \<Rightarrow> reply action" where
  "create_branch be a =
     and_then
       (if \<not> truthy (read_prop a ''ref'')
        then await be (Call ''getDefaultBranchRef'' [Val (read_prop a ''project_id'')])
        else done_with (read_prop a ''ref''))
       (\<lambda>ref. json_reply be
          (Call ''createBranch''
             [Val (read_prop a ''project_id''),
              Val (JObj [(''name'', read_prop a ''branch''), (''ref'', ref)])]))"

text \<open>An object literal \<^verbatim>\<open>{ k1: args.k1, k2: args.k2, ... }\<close>.\<close>

definition pick :: "obj \<Rightarrow> string list \<Rightarrow> js" where
  "pick a ks = JObj (map (\<lambda>k. (k, read_prop a k)) ks)"

text \<open>The argument list \<^verbatim>\<open>(args.k1, args.k2, ...)\<close>.\<close>

definition vals :: "obj \<Rightarrow> string list \<Rightarrow> arg list" where
  "vals a ks = map (\<lambda>k. Val (read_prop a k)) ks"

text \<open>The argument list \<^verbatim>\<open>(id, options)\<close> after \<^verbatim>\<open>const { id, ...options } = args\<close>.\<close>

definition split_args :: "string \<Rightarrow> obj \<Rightarrow> arg list" where
  "split_args k a = [Val (read_prop a k), Val (JObj (rest_without k a))]"

section \<open>The dispatch switch\<close>

text \<open>
  The \<^verbatim>\<open>switch (request.params.name)\<close> of the handler, case by case in the order of the
  source; the last branch is its \<^verbatim>\<open>default\<close>.
\<close>

definition wiki_deleted :: "obj \<Rightarrow> piece list" where
  "wiki_deleted a =
     [Lit (''Wiki page '' @ apostrophe), Interp (read_prop a ''slug''),
      Lit (apostrophe @ '' has been deleted.'')]"

definition runner_disabled :: "obj \<Rightarrow> piece list" where
  "runner_disabled a =
     [Lit ''Runner '', Interp (read_prop a ''runner_id''),
      Lit '' has been disabled for project '', Interp (read_prop a ''project_id'')]"

definition with_number :: "obj \<Rightarrow> string \<Rightarrow> string \<Rightarrow> arg list" where
  "with_number a k n = [Val (read_prop a k), NumberOf (read_prop a n)]"

definition dispatch :: "config \<Rightarrow> backend \<Rightarrow> string \<Rightarrow> js \<Rightarrow> reply action" where
  "dispatch cfg be nm raw =
    (if nm = ''fork_repository'' then
       with_args cfg ''ForkRepositorySchema'' raw (\<lambda>a.
         json_reply be (Call ''forkProject'' (vals a [''project_id'', ''namespace''])))
     else if nm = ''create_branch'' then
       with_args cfg ''CreateBranchSchema'' raw (\<lambda>a. create_branch be a)
     else if nm = ''search_repositories'' then
       with_args cfg ''SearchRepositoriesSchema'' raw (\<lambda>a.
         json_reply be (Call ''searchProjects'' (vals a [''search'', ''page'', ''per_page''])))
     else if nm = ''create_repository'' then
       with_args cfg ''CreateRepositorySchema'' raw (\<lambda>a.
         json_reply be (Call ''createRepository'' [Val (JObj a)]))
     else if nm = ''get_file_contents'' then
       with_args cfg ''GetFileContentsSchema'' raw (\<lambda>a.
         json_reply be (Call ''getFileContents'' (vals a [''project_id'', ''file_path'', ''ref''])))
     else if nm = ''create_or_update_file'' then
       with_args cfg ''CreateOrUpdateFileSchema'' raw (\<lambda>a.
         json_reply be
           (Call ''createOrUpdateFile''
              (vals a [''project_id'', ''file_path'', ''content'', ''commit_message'', ''branch'',
                       ''previous_path''])))
     else if nm = ''push_files'' then
       with_args cfg ''PushFilesSchema'' raw (\<lambda>a. push_files be a)
     else if nm = ''create_issue'' then
       with_args cfg ''CreateIssueSchema'' raw (\<lambda>a.
         json_reply be (Call ''createIssue'' (split_args ''project_id'' a)))
     else if nm = ''create_merge_request'' then
       with_args cfg ''CreateMergeRequestSchema'' raw (\<lambda>a.
         json_reply be (Call ''createMergeRequest'' (split_args ''project_id'' a)))
     else if nm = ''list_group_projects'' then
       with_args cfg ''ListGroupProjectsSchema'' raw (\<lambda>a.
         json_reply be (Call ''listGroupProjects'' (split_args ''group_id'' a)))
     else if nm = ''get_project_events'' then
       with_args cfg ''GetProjectEventsSchema'' raw (\<lambda>a.
         check_pagination a
           (formatted_reply be ''formatEventsResponse''
              (Call ''getProjectEvents'' (split_args ''project_id'' a))))
     else if nm = ''list_commits'' then
       with_args cfg ''ListCommitsSchema'' raw (\<lambda>a.
         check_pagination a
           (reject_if (truthy_invalid_date cfg (read_prop a ''since'')) (''since'' @ iso_suffix)
             (reject_if (truthy_invalid_date cfg (read_prop a ''until'')) (''until'' @ iso_suffix)
               (formatted_reply be ''formatCommitsResponse''
                  (Call ''listCommits'' (split_args ''project_id'' a))))))
     else if nm = ''list_issues'' then
       with_args cfg ''ListIssuesSchema'' raw (\<lambda>a.
         check_pagination a
           (check_date_fields cfg a
             (formatted_reply be ''formatIssuesResponse''
                (Call ''listIssues'' (split_args ''project_id'' a)))))
     else if nm = ''list_merge_requests'' then
       with_args cfg ''ListMergeRequestsSchema'' raw (\<lambda>a.
         check_pagination a
           (check_date_fields cfg a
             (formatted_reply be ''formatMergeRequestsResponse''
                (Call ''listMergeRequests'' (split_args ''project_id'' a)))))
     else if nm = ''list_project_wiki_pages'' then
       with_args cfg ''ListProjectWikiPagesSchema'' raw (\<lambda>a.
         formatted_reply be ''formatWikiPagesResponse''
           (Call ''listProjectWikiPages''
              [Val (read_prop a ''project_id''), Val (pick a [''with_content''])]))
     else if nm = ''get_project_wiki_page'' then
       with_args cfg ''GetProjectWikiPageSchema'' raw (\<lambda>a.
         formatted_reply be ''formatWikiPageResponse''
           (Call ''getProjectWikiPage''
              [Val (read_prop a ''project_id''), Val (read_prop a ''slug''),
               Val (pick a [''render_html'', ''version''])]))
     else if nm = ''create_project_wiki_page'' then
       with_args cfg ''CreateProjectWikiPageSchema'' raw (\<lambda>a.
         formatted_reply be ''formatWikiPageResponse''
           (Call ''createProjectWikiPage''
              [Val (read_prop a ''project_id''), Val (pick a [''title'', ''content'', ''format''])]))
     else if nm = ''edit_project_wiki_page'' then
       with_args cfg ''EditProjectWikiPageSchema'' raw (\<lambda>a.
         formatted_reply be ''formatWikiPageResponse''
           (Call ''editProjectWikiPage''
              [Val (read_prop a ''project_id''), Val (read_prop a ''slug''),
               Val (pick a [''title'', ''content'', ''format''])]))
     else if nm = ''delete_project_wiki_page'' then
       with_args cfg ''DeleteProjectWikiPageSchema'' raw (\<lambda>a.
         template_reply be (Call ''deleteProjectWikiPage'' (vals a [''project_id'', ''slug'']))
           (wiki_deleted a))
     else if nm = ''upload_project_wiki_attachment'' then
       with_args cfg ''UploadProjectWikiAttachmentSchema'' raw (\<lambda>a.
         formatted_reply be ''formatWikiAttachmentResponse''
           (Call ''uploadProjectWikiAttachment''
              [Val (read_prop a ''project_id''), Val (pick a [''file_path'', ''content'', ''branch''])]))
     else if nm = ''list_group_wiki_pages'' then
       with_args cfg ''ListGroupWikiPagesSchema'' raw (\<lambda>a.
         formatted_reply be ''formatWikiPagesResponse''
           (Call ''listGroupWikiPages''
              [Val (read_prop a ''group_id''), Val (pick a [''with_content''])]))
     else if nm = ''get_group_wiki_page'' then
       with_args cfg ''GetGroupWikiPageSchema'' raw (\<lambda>a.
         formatted_reply be ''formatWikiPageResponse''
           (Call ''getGroupWikiPage''
              [Val (read_prop a ''group_id''), Val (read_prop a ''slug''),
               Val (pick a [''render_html'', ''version''])]))
     else if nm = ''create_group_wiki_page'' then
       with_args cfg ''CreateGroupWikiPageSchema'' raw (\<lambda>a.
         formatted_reply be ''formatWikiPageResponse''
           (Call ''createGroupWikiPage''
              [Val (read_prop a ''group_id''), Val (pick a [''title'', ''content'', ''format''])]))
     else if nm = ''edit_group_wiki_page'' then
       with_args cfg ''EditGroupWikiPageSchema'' raw (\<lambda>a.
         formatted_reply be ''formatWikiPageResponse''
           (Call ''editGroupWikiPage''
              [Val (read_prop a ''group_id''), Val (read_prop a ''slug''),
               Val (pick a [''title'', ''content'', ''format''])]))
     else if nm = ''delete_group_wiki_page'' then
       with_args cfg ''DeleteGroupWikiPageSchema'' raw (\<lambda>a.
         template_reply be (Call ''deleteGroupWikiPage'' (vals a [''group_id'', ''slug'']))
           (wiki_deleted a))
     else if nm = ''upload_group_wiki_attachment'' then
       with_args cfg ''UploadGroupWikiAttachmentSchema'' raw (\<lambda>a.
         formatted_reply be ''formatWikiAttachmentResponse''
           (Call ''uploadGroupWikiAttachment''
              [Val (read_prop a ''group_id''), Val (pick a [''file_path'', ''content'', ''branch''])]))
     else if nm = ''list_project_members'' then
       with_args cfg ''ListProjectMembersSchema'' raw (\<lambda>a.
         formatted_reply be ''formatMembersResponse''
           (Call ''listProjectMembers'' (split_args ''project_id'' a)))
     else if nm = ''list_group_members'' then
       with_args cfg ''ListGroupMembersSchema'' raw (\<lambda>a.
         formatted_reply be ''formatMembersResponse''
           (Call ''listGroupMembers'' (split_args ''group_id'' a)))
     else if nm = ''list_issue_notes'' then
       with_args cfg ''ListIssueNotesSchema'' raw (\<lambda>a.
         check_pagination a
           (formatted_reply be ''formatNotesResponse''
              (Call ''getIssueNotes''
                 [Val (read_prop a ''project_id''), Val (read_prop a ''issue_iid''),
                  Val (pick a [''sort'', ''order_by'', ''page'', ''per_page''])])))
     else if nm = ''list_issue_discussions'' then
       with_args cfg ''ListIssueDiscussionsSchema'' raw (\<lambda>a.
         check_pagination a
           (formatted_reply be ''formatDiscussionsResponse''
              (Call ''getIssueDiscussions''
                 [Val (read_prop a ''project_id''), Val (read_prop a ''issue_iid''),
                  Val (pick a [''page'', ''per_page''])])))
     else if nm = ''list_pipelines'' then
       with_args cfg ''ListPipelinesSchema'' raw (\<lambda>a.
         json_reply be (Call ''listPipelines'' (split_args ''project_id'' a)))
     else if nm = ''get_pipeline'' then
       with_args cfg ''GetPipelineSchema'' raw (\<lambda>a.
         json_reply be (Call ''getPipeline'' (with_number a ''project_id'' ''pipeline_id'')))
     else if nm = ''get_pipeline_jobs'' then
       with_args cfg ''GetPipelineJobsSchema'' raw (\<lambda>a.
         json_reply be
           (Call ''getPipelineJobs''
              (with_number a ''project_id'' ''pipeline_id'' @ [Val (read_prop a ''scope'')])))
     else if nm = ''get_job'' then
       with_args cfg ''GetJobSchema'' raw (\<lambda>a.
         json_reply be (Call ''getJob'' (with_number a ''project_id'' ''job_id'')))
     else if nm = ''get_job_log'' then
       with_args cfg ''GetJobLogSchema'' raw (\<lambda>a.
         and_then (await be (Call ''getJobLog'' (with_number a ''project_id'' ''job_id'')))
           (\<lambda>log. done_with (Content [Raw log])))
     else if nm = ''create_pipeline'' then
       with_args cfg ''CreatePipelineSchema'' raw (\<lambda>a.
         json_reply be
           (Call ''createPipeline''
              [Val (read_prop a ''project_id''), Val (read_prop a ''ref''),
               Val (if truthy (read_prop a ''variables'') then read_prop a ''variables''
                    else JObj [])]))
     else if nm = ''retry_pipeline'' then
       with_args cfg ''RetryPipelineSchema'' raw (\<lambda>a.
         json_reply be (Call ''retryPipeline'' (with_number a ''project_id'' ''pipeline_id'')))
     else if nm = ''cancel_pipeline'' then
       with_args cfg ''CancelPipelineSchema'' raw (\<lambda>a.
         json_reply be (Call ''cancelPipeline'' (with_number a ''project_id'' ''pipeline_id'')))
     else if nm = ''retry_job'' then
       with_args cfg ''RetryJobSchema'' raw (\<lambda>a.
         json_reply be (Call ''retryJob'' (with_number a ''project_id'' ''job_id'')))
     else if nm = ''cancel_job'' then
       with_args cfg ''CancelJobSchema'' raw (\<lambda>a.
         json_reply be (Call ''cancelJob'' (with_number a ''project_id'' ''job_id'')))
     else if nm = ''list_projects'' then
       with_args cfg ''ListProjectsSchema'' raw (\<lambda>a.
         json_reply be (Call ''listProjects'' [Val (JObj a)]))
     else if nm = ''get_project'' then
       with_args cfg ''GetProjectSchema'' raw (\<lambda>a.
         json_reply be (Call ''getProject'' (vals a [''project_id''])))
     else if nm = ''validate_ci_yaml'' then
       with_args cfg ''ValidateCIYamlSchema'' raw (\<lambda>a.
         json_reply be
           (Call ''validateCIYaml'' (vals a [''project_id'', ''content'', ''include_merged_yaml''])))
     else if nm = ''get_project_runners'' then
       with_args cfg ''GetProjectRunnersSchema'' raw (\<lambda>a.
         json_reply be (Call ''getProjectRunners'' (split_args ''project_id'' a)))
     else if nm = ''list_shared_runners'' then
       with_args cfg ''ListSharedRunnersSchema'' raw (\<lambda>a.
         json_reply be (Call ''listSharedRunners'' [Val (JObj a)]))
     else if nm = ''get_runner_details'' then
       with_args cfg ''GetRunnerDetailsSchema'' raw (\<lambda>a.
         json_reply be (Call ''getRunnerDetails'' (vals a [''runner_id''])))
     else if nm = ''enable_project_runner'' then
       with_args cfg ''EnableProjectRunnerSchema'' raw (\<lambda>a.
         json_reply be (Call ''enable_project_runner'' (vals a [''project_id'', ''runner_id''])))
     else if nm = ''disable_project_runner'' then
       with_args cfg ''DisableProjectRunnerSchema'' raw (\<lambda>a.
         template_reply be (Call ''disable_project_runner'' (vals a [''project_id'', ''runner_id'']))
           (runner_disabled a))
     else if nm = ''register_runner'' then
       with_args cfg ''RegisterRunnerSchema'' raw (\<lambda>a.
         json_reply be
           (Call ''register_runner'' (vals a [''registration_token'', ''description'', ''tags''])))
     else if nm = ''validate_runner_tags'' then
       with_args cfg ''ValidateRunnerTagsSchema'' raw (\<lambda>a.
         json_reply be (Call ''validate_runner_tags'' (vals a [''project_id'', ''tags''])))
     else if nm = ''update_runner_settings'' then
       with_args cfg ''UpdateRunnerSettingsSchema'' raw (\<lambda>a.
         json_reply be (Call ''update_runner_settings'' (split_args ''runner_id'' a)))
     else if nm = ''get_runner_jobs'' then
       with_args cfg ''GetRunnerJobsSchema'' raw (\<lambda>a.
         json_reply be (Call ''get_runner_jobs'' (split_args ''runner_id'' a)))
     else if nm = ''runner_health_check'' then
       with_args cfg ''RunnerHealthCheckSchema'' raw (\<lambda>a.
         json_reply be (Call ''runner_health_check'' (vals a [''runner_id''])))
     else throw (Error (''Unknown tool: '' @ nm)))"

section \<open>The invocation handler\<close>

text \<open>
  The message built by the \<^verbatim>\<open>catch\<close> block from a \<^verbatim>\<open>ZodError\<close>: every issue as
  \<^verbatim>\<open>path.join('.')\<close>, a colon and the reason, joined by a comma and a space.
\<close>

fun digit_char :: "nat \<Rightarrow> char" where
  "digit_char n = char_of (48 + n)"

fun show_nat :: "nat \<Rightarrow> string" where
  "show_nat n = (if n < 10 then [digit_char n] else show_nat (n div 10) @ [digit_char (n mod 10)])"

declare show_nat.simps [simp del]

fun show_elem :: "path_elem \<Rightarrow> string" where
  "show_elem (Key k) = k"
| "show_elem (Index i) = show_nat i"

definition show_issue :: "zod_issue \<Rightarrow> string" where
  "show_issue e = join ''.'' (map show_elem (issue_path e)) @ '': '' @ issue_message e"

definition zod_message :: "zod_issue list \<Rightarrow> string" where
  "zod_message issues = ''Invalid arguments: '' @ join '', '' (map show_issue issues)"

text \<open>The \<^verbatim>\<open>catch\<close> block: a \<^verbatim>\<open>ZodError\<close> becomes a plain error, anything else is rethrown.\<close>

definition translate :: "(exn + 'a) \<times> api_call list \<Rightarrow> (exn + 'a) \<times> api_call list" where
  "translate r =
     (case r of
        (Inl (ZodError issues), tr) \<Rightarrow> (Inl (Error (zod_message issues)), tr)
      | _ \<Rightarrow> r)"

text \<open>\<^verbatim>\<open>!tool || !tool.readOnly\<close> for \<^verbatim>\<open>tool = ALL_TOOLS.find(t => t.name === name)\<close>.\<close>

definition not_read_only :: "string \<Rightarrow> bool" where
  "not_read_only nm =
     (case find (\<lambda>t. name t = nm) ALL_TOOLS of None \<Rightarrow> True | Some t \<Rightarrow> \<not> readOnly t)"

definition read_only_message :: "string \<Rightarrow> string" where
  "read_only_message nm =
     ''Tool '' @ apostrophe @ nm @ apostrophe @ '' is not available in read-only mode''"

text \<open>
  The handler of \<^verbatim>\<open>CallToolRequestSchema\<close>.  The result is the thrown error or the reply,
  together with the backend calls issued, in order.
\<close>

definition handle_call :: "config \<Rightarrow> backend \<Rightarrow> request \<Rightarrow> (exn + reply) \<times> api_call list" where
  "handle_call cfg be req =
     translate
       ((if \<not> truthy (params_arguments req) then throw (Error ''Arguments are required'')
         else if GITLAB_READ_ONLY_MODE cfg \<and> not_read_only (params_name req)
         then throw (Error (read_only_message (params_name req)))
         else dispatch cfg be (params_name req) (params_arguments req)) [])"

section \<open>The cross-field rules in the words of the specification\<close>

text \<open>
  Section 4.4 of the specification: \<^verbatim>\<open>page\<close>, if present, must be at least 1; \<^verbatim>\<open>per_page\<close>, if
  present, must lie between 1 and 100 inclusive; a field that is a calendar timestamp
  (\<^verbatim>\<open>since\<close>, \<^verbatim>\<open>until\<close>, \<^verbatim>\<open>created_after\<close>, \<^verbatim>\<open>created_before\<close>, \<^verbatim>\<open>updated_after\<close>,
  \<^verbatim>\<open>updated_before\<close>), if present, must parse as a valid date-time.  These definitions follow
  the specification and not the handler: they say when parsed arguments obey the rules, and
  are compared further down with the guards that the handler evaluates.
\<close>

definition spec_page_rule :: "js \<Rightarrow> bool" where
  "spec_page_rule v = (case v of JUndefined \<Rightarrow> True | JNum n \<Rightarrow> 1 \<le> n | _ \<Rightarrow> False)"

definition spec_per_page_rule :: "js \<Rightarrow> bool" where
  "spec_per_page_rule v =
     (case v of JUndefined \<Rightarrow> True | JNum n \<Rightarrow> 1 \<le> n \<and> n \<le> 100 | _ \<Rightarrow> False)"

definition spec_timestamp_rule :: "config \<Rightarrow> js \<Rightarrow> bool" where
  "spec_timestamp_rule cfg v =
     (case v of JUndefined \<Rightarrow> True | JStr s \<Rightarrow> isValidISODate cfg s | _ \<Rightarrow> False)"

definition timestamp_fields :: "string list" where
  "timestamp_fields = [''since'', ''until'', ''created_after'', ''created_before'',
                       ''updated_after'', ''updated_before'']"

definition spec_cross_field_ok :: "config \<Rightarrow> obj \<Rightarrow> bool" where
  "spec_cross_field_ok cfg a =
     (spec_page_rule (read_prop a ''page'') \<and> spec_per_page_rule (read_prop a ''per_page'') \<and>
      list_all (\<lambda>f. spec_timestamp_rule cfg (read_prop a f)) timestamp_fields)"

section \<open>Sample collaborators\<close>

text \<open>
  Modelled from the spec: \<^verbatim>\<open>schemas.ts\<close> is not among the sources.  The scenarios of the
  specification fix that \<^verbatim>\<open>list_issues\<close> and \<^verbatim>\<open>list_commits\<close> take a string \<^verbatim>\<open>project_id\<close>,
  numeric \<^verbatim>\<open>page\<close> and \<^verbatim>\<open>per_page\<close> and string date bounds, and that \<^verbatim>\<open>push_files\<close> takes a
  list of files.  The contracts below are samples of that shape; they instantiate the
  parameter \<open>parse\<close> in the examples and nowhere else.  An object contract reports every
  violating field, drops undeclared keys and keeps the declared ones in input order.
\<close>

datatype kind = KString | KNumber | KArray

fun has_kind :: "kind \<Rightarrow> js \<Rightarrow> bool" where
  "has_kind KString (JStr s) = True"
| "has_kind KNumber (JNum n) = True"
| "has_kind KArray (JArr xs) = True"
| "has_kind k v = False"

fun kind_name :: "kind \<Rightarrow> string" where
  "kind_name KString = ''string''"
| "kind_name KNumber = ''number''"
| "kind_name KArray = ''array''"

fun type_name :: "js \<Rightarrow> string" where
  "type_name JUndefined = ''undefined''"
| "type_name JNull = ''null''"
| "type_name (JBool b) = ''boolean''"
| "type_name (JNum n) = ''number''"
| "type_name (JStr s) = ''string''"
| "type_name (JArr xs) = ''array''"
| "type_name (JObj kvs) = ''object''"

type_synonym contract = "(string \<times> kind \<times> bool) list"

fun field_issues :: "obj \<Rightarrow> string \<times> kind \<times> bool \<Rightarrow> zod_issue list" where
  "field_issues raw (k, kd, required) =
     (case map_of raw k of
        None \<Rightarrow> (if required then [Issue [Key k] ''Required''] else [])
      | Some v \<Rightarrow>
          (if has_kind kd v then []
           else [Issue [Key k] (''Expected '' @ kind_name kd @ '', received '' @ type_name v)]))"

definition parse_object :: "contract \<Rightarrow> js \<Rightarrow> zod_issue list + obj" where
  "parse_object c raw =
     (case raw of
        JObj kvs \<Rightarrow>
          (let issues = concat (map (field_issues kvs) c)
           in if issues = [] then Inr (filter (\<lambda>kv. fst kv \<in> set (map fst c)) kvs)
              else Inl issues)
      | _ \<Rightarrow> Inl [Issue [] (''Expected object, received '' @ type_name raw)])"

definition sample_contract :: "string \<Rightarrow> contract" where
  "sample_contract schema =
     (if schema = ''ListIssuesSchema'' \<or> schema = ''ListMergeRequestsSchema'' then
        [(''project_id'', KString, True), (''page'', KNumber, False), (''per_page'', KNumber, False),
         (''created_after'', KString, False), (''created_before'', KString, False),
         (''updated_after'', KString, False), (''updated_before'', KString, False)]
      else if schema = ''ListCommitsSchema'' then
        [(''project_id'', KString, True), (''page'', KNumber, False), (''per_page'', KNumber, False),
         (''since'', KString, False), (''until'', KString, False)]
      else if schema = ''PushFilesSchema'' then
        [(''project_id'', KString, True), (''files'', KArray, True),
         (''commit_message'', KString, True), (''branch'', KString, True)]
      else if schema = ''CreateIssueSchema'' then
        [(''project_id'', KString, True), (''title'', KString, True)]
      else
        [(''project_id'', KString, True), (''page'', KNumber, False), (''per_page'', KNumber, False)])"

definition sample_parse :: "string \<Rightarrow> js \<Rightarrow> zod_issue list + obj" where
  "sample_parse schema raw = parse_object (sample_contract schema) raw"

text \<open>
  Modelled from the spec: \<^verbatim>\<open>isValidISODate\<close> of \<^verbatim>\<open>utils.ts\<close> is not among the sources.  The
  specification asks for a calendar date-time: year-month-day, an optional time of day, and
  an explicit or implied UTC offset.  The sample accepts \<^verbatim>\<open>YYYY-MM-DD\<close>, optionally followed
  by \<^verbatim>\<open>THH:MM:SS\<close> and then by nothing, \<^verbatim>\<open>Z\<close> or \<^verbatim>\<open>+HH:MM\<close> / \<^verbatim>\<open>-HH:MM\<close>, with month, day, hour,
  minute and second in range.
\<close>

definition is_digit :: "char \<Rightarrow> bool" where
  "is_digit c = ((48::nat) \<le> of_char c \<and> of_char c \<le> (57::nat))"

definition two_digits :: "char \<Rightarrow> char \<Rightarrow> nat option" where
  "two_digits a b =
     (if is_digit a \<and> is_digit b then Some ((of_char a - (48::nat)) * 10 + (of_char b - (48::nat))) else None)"

definition in_range :: "nat option \<Rightarrow> nat \<Rightarrow> nat \<Rightarrow> bool" where
  "in_range v lo hi = (case v of None \<Rightarrow> False | Some n \<Rightarrow> lo \<le> n \<and> n \<le> hi)"

fun valid_offset :: "string \<Rightarrow> bool" where
  "valid_offset [] = True"
| "valid_offset [z] = (z = CHR ''Z'')"
| "valid_offset [sg, h1, h2, c, m1, m2] =
     ((sg = CHR ''+'' \<or> sg = CHR ''-'') \<and> in_range (two_digits h1 h2) 0 23 \<and> c = CHR '':'' \<and>
      in_range (two_digits m1 m2) 0 59)"
| "valid_offset s = False"

fun valid_time :: "string \<Rightarrow> bool" where
  "valid_time [] = True"
| "valid_time (t # h1 # h2 # c1 # m1 # m2 # c2 # s1 # s2 # off) =
     (t = CHR ''T'' \<and> in_range (two_digits h1 h2) 0 23 \<and> c1 = CHR '':'' \<and>
      in_range (two_digits m1 m2) 0 59 \<and> c2 = CHR '':'' \<and> in_range (two_digits s1 s2) 0 59 \<and>
      valid_offset off)"
| "valid_time s = False"

fun sample_isValidISODate :: "string \<Rightarrow> bool" where
  "sample_isValidISODate (y1 # y2 # y3 # y4 # d1 # m1 # m2 # d2 # a # b # rest) =
     (is_digit y1 \<and> is_digit y2 \<and> is_digit y3 \<and> is_digit y4 \<and> d1 = CHR ''-'' \<and>
      in_range (two_digits m1 m2) 1 12 \<and> d2 = CHR ''-'' \<and> in_range (two_digits a b) 1 31 \<and>
      valid_time rest)"
| "sample_isValidISODate s = False"

definition sample_config :: "bool \<Rightarrow> config" where
  "sample_config ro =
     \<lparr>GITLAB_READ_ONLY_MODE = ro, parse = sample_parse, isValidISODate = sample_isValidISODate\<rparr>"

text \<open>Two sample backends: one that answers every call, one whose \<open>k\<close>-th call (from 0) throws.\<close>

definition answering :: backend where
  "answering tr c = Inr (JNum (of_nat (length tr)))"

definition failing_at :: "nat \<Rightarrow> backend" where
  "failing_at k tr c = (if length tr = k then Inl (Error ''409 Conflict'') else answering tr c)"

section \<open>Sample requests\<close>

text \<open>Catalog entries and argument objects used in the examples that follow.\<close>

definition commits_tool :: tool where
  "commits_tool = \<lparr>name = ''list_commits'', description = ''Get commit history for a GitLab project'',
                   inputSchema = ''ListCommitsSchema'', readOnly = True\<rparr>"

definition three_files :: "js list" where
  "three_files =
     [JObj [(''path'', JStr ''a.txt''), (''content'', JStr ''one'')],
      JObj [(''path'', JStr ''b.txt''), (''content'', JStr ''two'')],
      JObj [(''path'', JStr ''c.txt''), (''content'', JStr ''three'')]]"

definition push_request :: obj where
  "push_request =
     [(''project_id'', JStr ''123''), (''files'', JArr three_files),
      (''commit_message'', JStr ''add files''), (''branch'', JStr ''main'')]"

definition wrong_types :: obj where
  "wrong_types = [(''project_id'', JNum 3), (''since'', JNum 4)]"

definition bad_since :: obj where
  "bad_since = [(''project_id'', JStr ''123''), (''since'', JStr ''not-a-date'')]"

definition good_since :: obj where
  "good_since = [(''project_id'', JStr ''123''), (''since'', JStr ''2024-01-02T03:04:05Z'')]"

definition page_zero :: obj where
  "page_zero = [(''project_id'', JStr ''123''), (''page'', JNum 0)]"

definition empty_since :: obj where
  "empty_since = [(''project_id'', JStr ''123''), (''since'', JStr [])]"

section \<open>The catalog: names are unique\<close>

lemma find_distinct_key:
  "distinct (map f xs) \<Longrightarrow> x \<in> set xs \<Longrightarrow> find (\<lambda>y. f y = f x) xs = Some x"
  by (induction xs) (auto simp: image_iff)

lemma find_none_key: "k \<notin> set (map f xs) \<Longrightarrow> find (\<lambda>y. f y = k) xs = None"
  by (induction xs) auto

lemma names_distinct: "distinct (map name ALL_TOOLS)"
  unfolding ALL_TOOLS_def by simp

lemma find_tool: "t \<in> set ALL_TOOLS \<Longrightarrow> find (\<lambda>u. name u = name t) ALL_TOOLS = Some t"
  by (rule find_distinct_key [OF names_distinct])

lemma not_read_only_known: "t \<in> set ALL_TOOLS \<Longrightarrow> not_read_only (name t) = (\<not> readOnly t)"
  by (simp add: not_read_only_def find_tool)

lemma not_read_only_unknown: "nm \<notin> set (map name ALL_TOOLS) \<Longrightarrow> not_read_only nm"
  by (simp add: not_read_only_def find_none_key)

section \<open>The handler: the three outcomes of its preamble\<close>

lemma translate_error [simp]: "translate (Inl (Error m), tr) = (Inl (Error m), tr)"
  by (simp add: translate_def)

lemma translate_zod [simp]: "translate (Inl (ZodError is), tr) = (Inl (Error (zod_message is)), tr)"
  by (simp add: translate_def)

lemma translate_value [simp]: "translate (Inr v, tr) = (Inr v, tr)"
  by (simp add: translate_def)

lemma snd_translate [simp]: "snd (translate r) = snd r"
  by (cases r) (auto simp: translate_def split: sum.splits exn.splits)

lemma translate_isl: "isl (fst r) \<Longrightarrow> isl (fst (translate r))"
  by (cases r) (auto simp: translate_def split: sum.splits exn.splits)

lemma handle_call_absent:
  "\<not> truthy raw \<Longrightarrow>
   handle_call cfg be \<lparr>params_name = nm, params_arguments = raw\<rparr> =
     (Inl (Error ''Arguments are required''), [])"
  by (simp add: handle_call_def throw_def)

lemma handle_call_denied:
  "truthy raw \<Longrightarrow> GITLAB_READ_ONLY_MODE cfg \<Longrightarrow> not_read_only nm \<Longrightarrow>
   handle_call cfg be \<lparr>params_name = nm, params_arguments = raw\<rparr> =
     (Inl (Error (read_only_message nm)), [])"
  by (simp add: handle_call_def throw_def)

lemma handle_call_dispatch:
  "truthy raw \<Longrightarrow> \<not> (GITLAB_READ_ONLY_MODE cfg \<and> not_read_only nm) \<Longrightarrow>
   handle_call cfg be \<lparr>params_name = nm, params_arguments = raw\<rparr> =
     translate (dispatch cfg be nm raw [])"
  by (auto simp add: handle_call_def)

section \<open>What a message contains\<close>

lemma starts_with_append: "starts_with (p @ v) p"
  by (induction p) auto

lemma str_includes_append: "str_includes (u @ p @ v) p"
proof (induction u)
  case Nil
  show ?case by (cases "p @ v") (use starts_with_append [of p v] in \<open>auto\<close>)
next
  case (Cons c u)
  then show ?case by simp
qed

lemma read_only_message_includes:
  "str_includes (read_only_message nm) ''not available in read-only mode''"
proof -
  have "read_only_message nm =
        (''Tool '' @ apostrophe @ nm @ apostrophe @ '' is '') @ ''not available in read-only mode'' @ []"
    by (simp add: read_only_message_def)
  then show ?thesis using str_includes_append by metis
qed

lemma join_includes:
  "x \<in> set xs \<Longrightarrow> \<exists>u v. join sep xs = u @ x @ v"
proof (induction sep xs rule: join.induct)
  case (1 sep)
  then show ?case by simp
next
  case (2 sep y)
  then have "join sep [y] = [] @ x @ []" by simp
  then show ?case by blast
next
  case (3 sep y z zs)
  show ?case
  proof (cases "x = y")
    case True
    then have "join sep (y # z # zs) = [] @ x @ (sep @ join sep (z # zs))" by simp
    then show ?thesis by blast
  next
    case False
    with 3 obtain u v where "join sep (z # zs) = u @ x @ v" by auto
    then have "join sep (y # z # zs) = (y @ sep @ u) @ x @ v" by simp
    then show ?thesis by blast
  qed
qed

lemma zod_message_includes:
  assumes "e \<in> set issues"
  shows "str_includes (zod_message issues) (show_issue e)"
proof -
  from assms have "show_issue e \<in> set (map show_issue issues)" by simp
  from join_includes [OF this, of "'', ''"]
  obtain u v where "join '', '' (map show_issue issues) = u @ show_issue e @ v" by blast
  then have "zod_message issues = (''Invalid arguments: '' @ u) @ show_issue e @ v"
    by (simp add: zod_message_def)
  then show ?thesis using str_includes_append by metis
qed

section \<open>The switch: every case parses first\<close>

text \<open>
  The second lemma goes through the 53 entries of the catalog one by one: the case of the
  switch for an entry parses with the schema the entry advertises, and throws before any
  backend call when parsing fails.
\<close>

lemma unknown_default:
  "nm \<notin> set (map name ALL_TOOLS) \<Longrightarrow> dispatch cfg be nm raw = throw (Error (''Unknown tool: '' @ nm))"
  unfolding ALL_TOOLS_def dispatch_def by simp

lemma dispatch_parse_fail:
  assumes "t \<in> set ALL_TOOLS" and "parse cfg (inputSchema t) raw = Inl issues"
  shows "dispatch cfg be (name t) raw tr = (Inl (ZodError issues), tr)"
  using assms unfolding ALL_TOOLS_def
  by (simp, elim disjE) (simp_all add: dispatch_def with_args_def throw_def)

lemma check_pagination_throw:
  "per_page_rejected a \<Longrightarrow> check_pagination a k tr = (Inl (Error ''per_page must be between 1 and 100''), tr)"
  "\<not> per_page_rejected a \<Longrightarrow> page_rejected a \<Longrightarrow> check_pagination a k tr = (Inl (Error ''page must be greater than 0''), tr)"
  "\<not> per_page_rejected a \<Longrightarrow> \<not> page_rejected a \<Longrightarrow> check_pagination a k = k"
  by (simp_all add: check_pagination_def reject_if_def throw_def)

section \<open>The paginated cases\<close>

lemma snd_formatted_reply [simp]: "snd (formatted_reply be f c tr) = tr @ [c]"
  by (simp add: formatted_reply_def and_then_def await_def done_with_def split: sum.splits)

lemma read_only_tools_pass:
  "\<not> not_read_only ''list_issues''" "\<not> not_read_only ''list_commits''"
  by (simp_all add: not_read_only_def ALL_TOOLS_def)

lemma handle_call_list_issues:
  assumes "truthy raw" and "parse cfg ''ListIssuesSchema'' raw = Inr a"
  shows "handle_call cfg be \<lparr>params_name = ''list_issues'', params_arguments = raw\<rparr> =
           translate (check_pagination a (check_date_fields cfg a
             (formatted_reply be ''formatIssuesResponse''
                (Call ''listIssues'' (split_args ''project_id'' a)))) [])"
  using assms by (simp add: handle_call_dispatch read_only_tools_pass dispatch_def with_args_def)

lemma handle_call_list_commits:
  assumes "truthy raw" and "parse cfg ''ListCommitsSchema'' raw = Inr a"
  shows "handle_call cfg be \<lparr>params_name = ''list_commits'', params_arguments = raw\<rparr> =
           translate (check_pagination a
             (reject_if (truthy_invalid_date cfg (read_prop a ''since'')) (''since'' @ iso_suffix)
               (reject_if (truthy_invalid_date cfg (read_prop a ''until'')) (''until'' @ iso_suffix)
                 (formatted_reply be ''formatCommitsResponse''
                    (Call ''listCommits'' (split_args ''project_id'' a))))) [])"
  using assms by (simp add: handle_call_dispatch read_only_tools_pass dispatch_def with_args_def)

lemma no_date_fields:
  "check_date_fields cfg [(''project_id'', JStr p), (k, JNum n)] act = act"
  by (simp add: check_date_fields_def dateFields_def string_invalid_date_def read_prop_def)

lemma pagination_boundaries:
  "\<not> per_page_rejected [(''per_page'', JNum 0)]" "per_page_rejected [(''per_page'', JNum 101)]"
  "\<not> per_page_rejected [(''per_page'', JNum 1)]" "\<not> per_page_rejected [(''per_page'', JNum 100)]"
  "\<not> page_rejected [(''page'', JNum 0)]" "\<not> page_rejected [(''page'', JNum 1)]"
  "page_rejected [(''page'', JNum (-1))]"
  by (simp_all add: per_page_rejected_def page_rejected_def read_prop_def js_less_def js_greater_def to_number_def)

lemma absent_or_valid_passes:
  "v = JUndefined \<or> (\<exists>s. v = JStr s \<and> isValidISODate cfg s) \<Longrightarrow> \<not> truthy_invalid_date cfg v"
  by (auto simp: truthy_invalid_date_def)

section \<open>The loop of \<open>push_files\<close>\<close>

lemma push_loop_abort:
  assumes "k < length files"
    and "\<forall>f \<in> set files. \<not> nullish f"
    and "\<forall>i<k. \<exists>v. be (tr @ map (file_call a) (take i files)) (file_call a (files ! i)) = Inr v"
    and "be (tr @ map (file_call a) (take k files)) (file_call a (files ! k)) = Inl e"
  shows "push_loop be a files results tr = (Inl e, tr @ map (file_call a) (take (Suc k) files))"
  using assms
proof (induction files arbitrary: k results tr)
  case Nil
  then show ?case by simp
next
  case (Cons f fs)
  show ?case
  proof (cases k)
    case 0
    with Cons.prems show ?thesis
      by (simp add: and_then_def await_def)
  next
    case (Suc j)
    from Cons.prems(3) Suc obtain v where v: "be tr (file_call a f) = Inr v"
      by (metis append_Nil2 list.simps(8) nth_Cons_0 take_0 zero_less_Suc)
    have "\<forall>i<j. \<exists>w. be ((tr @ [file_call a f]) @ map (file_call a) (take i fs))
                       (file_call a (fs ! i)) = Inr w"
    proof (intro allI impI)
      fix i assume "i < j"
      then have "Suc i < k" using Suc by simp
      with Cons.prems(3) show "\<exists>w. be ((tr @ [file_call a f]) @ map (file_call a) (take i fs))
                       (file_call a (fs ! i)) = Inr w"
        by fastforce
    qed
    moreover from Cons.prems(4) Suc
    have "be ((tr @ [file_call a f]) @ map (file_call a) (take j fs)) (file_call a (fs ! j)) = Inl e"
      by simp
    moreover from Cons.prems Suc have "j < length fs" "\<forall>f \<in> set fs. \<not> nullish f" by auto
    ultimately have "push_loop be a fs (results @ [v]) (tr @ [file_call a f]) =
        (Inl e, (tr @ [file_call a f]) @ map (file_call a) (take (Suc j) fs))"
      using Cons.IH by blast
    with v Cons.prems(2) Suc show ?thesis
      by (simp add: and_then_def await_def)
  qed
qed

lemma push_loop_complete:
  assumes "\<forall>f \<in> set files. \<not> nullish f"
    and "\<forall>i<length files. \<exists>v. be (tr @ map (file_call a) (take i files)) (file_call a (files ! i)) = Inr v"
  shows "\<exists>rs. length rs = length files \<and>
           push_loop be a files results tr = (Inr (results @ rs), tr @ map (file_call a) files)"
  using assms
proof (induction files arbitrary: results tr)
  case Nil
  then show ?case by (simp add: done_with_def)
next
  case (Cons f fs)
  from Cons.prems(2) obtain v where v: "be tr (file_call a f) = Inr v"
    by (metis append_Nil2 length_greater_0_conv list.distinct(1) list.simps(8) nth_Cons_0 take_0)
  have "\<forall>i<length fs. \<exists>w. be ((tr @ [file_call a f]) @ map (file_call a) (take i fs))
                       (file_call a (fs ! i)) = Inr w"
  proof (intro allI impI)
    fix i assume "i < length fs"
    then have "Suc i < length (f # fs)" by simp
    with Cons.prems(2) show "\<exists>w. be ((tr @ [file_call a f]) @ map (file_call a) (take i fs))
                       (file_call a (fs ! i)) = Inr w"
      by fastforce
  qed
  moreover from Cons.prems have "\<forall>f \<in> set fs. \<not> nullish f" by simp
  ultimately obtain rs where "length rs = length fs"
    "push_loop be a fs (results @ [v]) (tr @ [file_call a f]) =
       (Inr ((results @ [v]) @ rs), (tr @ [file_call a f]) @ map (file_call a) fs)"
    using Cons.IH by blast
  with v Cons.prems(1) have "length (v # rs) = length (f # fs) \<and>
      push_loop be a (f # fs) results tr =
        (Inr (results @ (v # rs)), tr @ map (file_call a) (f # fs))"
    by (simp add: and_then_def await_def)
  then show ?case by blast
qed

lemma dispatch_push_files:
  "parse cfg ''PushFilesSchema'' raw = Inr a \<Longrightarrow>
   dispatch cfg be ''push_files'' raw = push_files be a"
  by (simp add: dispatch_def with_args_def)

section \<open>Facts about the samples\<close>

lemma tools_in_catalog: "commits_tool \<in> set ALL_TOOLS"
  by (simp add: ALL_TOOLS_def commits_tool_def)

lemma sample_parse_push: "parse (sample_config False) ''PushFilesSchema'' (JObj push_request) = Inr push_request"
  by (simp add: sample_config_def sample_parse_def sample_contract_def parse_object_def
        push_request_def three_files_def)

lemma sample_parse_commits:
  "parse (sample_config False) ''ListCommitsSchema'' (JObj bad_since) = Inr bad_since"
  "parse (sample_config False) ''ListCommitsSchema'' (JObj good_since) = Inr good_since"
  by (simp_all add: sample_config_def sample_parse_def sample_contract_def parse_object_def
        bad_since_def good_since_def)

lemma sample_dates:
  "\<not> sample_isValidISODate ''not-a-date''" "sample_isValidISODate ''2024-01-02T03:04:05Z''"
  by (simp_all add: is_digit_def two_digits_def in_range_def)

section \<open>The guards of the handler against the rules of the specification\<close>

text \<open>
  On values of the fields' static types the guards of the handler and the rules of the
  specification differ in exactly one value each: the pagination guards let the number 0
  through, and the guard on \<^verbatim>\<open>since\<close> and \<^verbatim>\<open>until\<close> lets the empty string through.  The guard
  of \<^verbatim>\<open>list_issues\<close> and \<^verbatim>\<open>list_merge_requests\<close> on their date fields is the rule itself.
\<close>

lemma page_guard_misses_zero:
  "number_or_undefined (read_prop a ''page'') \<Longrightarrow>
   page_rejected a =
     (\<not> spec_page_rule (read_prop a ''page'') \<and> read_prop a ''page'' \<noteq> JNum 0)"
  by (auto simp: number_or_undefined_def page_rejected_def spec_page_rule_def js_less_def
        to_number_def split: js.splits)

lemma per_page_guard_misses_zero:
  "number_or_undefined (read_prop a ''per_page'') \<Longrightarrow>
   per_page_rejected a =
     (\<not> spec_per_page_rule (read_prop a ''per_page'') \<and> read_prop a ''per_page'' \<noteq> JNum 0)"
  by (auto simp: number_or_undefined_def per_page_rejected_def spec_per_page_rule_def js_less_def
        js_greater_def to_number_def split: js.splits)

lemma truthy_date_guard_misses_empty:
  "string_or_undefined v \<Longrightarrow>
   truthy_invalid_date cfg v = (\<not> spec_timestamp_rule cfg v \<and> v \<noteq> JStr [])"
  by (auto simp: string_or_undefined_def truthy_invalid_date_def spec_timestamp_rule_def
        split: js.splits)

lemma string_date_guard_is_rule:
  "string_or_undefined v \<Longrightarrow> string_invalid_date cfg v = (\<not> spec_timestamp_rule cfg v)"
  by (auto simp: string_or_undefined_def string_invalid_date_def spec_timestamp_rule_def
        split: js.splits)

text \<open>Whatever the operation, a backend call is only issued for arguments that parsed.\<close>

lemma backend_call_implies_parsed:
  assumes "t \<in> set ALL_TOOLS"
    and "handle_call cfg be \<lparr>params_name = name t, params_arguments = raw\<rparr> = (res, tr)"
    and "tr \<noteq> []"
  shows "\<exists>a. parse cfg (inputSchema t) raw = Inr a"
proof (cases "parse cfg (inputSchema t) raw")
  case (Inr a)
  then show ?thesis by blast
next
  case (Inl issues)
  let ?req = "\<lparr>params_name = name t, params_arguments = raw\<rparr>"
  have "snd (handle_call cfg be ?req) = []"
  proof (cases "truthy raw \<and> \<not> (GITLAB_READ_ONLY_MODE cfg \<and> not_read_only (name t))")
    case False
    then have "handle_call cfg be ?req = (Inl (Error ''Arguments are required''), []) \<or>
               handle_call cfg be ?req = (Inl (Error (read_only_message (name t))), [])"
      using handle_call_absent handle_call_denied by blast
    then show ?thesis by auto
  next
    case True
    then have "handle_call cfg be ?req = translate (dispatch cfg be (name t) raw [])"
      by (simp add: handle_call_dispatch)
    then show ?thesis
      by (simp add: dispatch_parse_fail [OF assms(1) Inl])
  qed
  with assms(2,3) show ?thesis by simp
qed

text \<open>
  The date guard of \<^verbatim>\<open>list_issues\<close> tests \<^verbatim>\<open>typeof value === 'string'\<close> and so rejects an empty
  string that is not a valid date.
\<close>

lemma list_issues_empty_date_rejected:
  assumes "truthy raw"
    and "parse cfg ''ListIssuesSchema'' raw =
           Inr [(''project_id'', JStr ''123''), (''created_after'', JStr [])]"
    and "\<not> isValidISODate cfg []"
  shows "handle_call cfg be \<lparr>params_name = ''list_issues'', params_arguments = raw\<rparr> =
           (Inl (Error ''created_after must be a valid ISO 8601 date (YYYY-MM-DDTHH:MM:SSZ)''), [])"
proof -
  let ?a = "[(''project_id'', JStr ''123''), (''created_after'', JStr [])]"
  have "\<not> per_page_rejected ?a" "\<not> page_rejected ?a"
    by (simp_all add: per_page_rejected_def page_rejected_def read_prop_def)
  then have "check_pagination ?a k = k" for k :: "reply action"
    by (simp add: check_pagination_throw)
  moreover have "check_date_fields cfg ?a k [] =
      (Inl (Error ''created_after must be a valid ISO 8601 date (YYYY-MM-DDTHH:MM:SSZ)''), [])"
    for k :: "reply action"
    using assms(3)
    by (simp add: check_date_fields_def dateFields_def string_invalid_date_def read_prop_def
          throw_def iso_suffix_def)
  ultimately show ?thesis
    using handle_call_list_issues [OF assms(1,2), of be] by simp
qed

text \<open>
  The date checks of \<^verbatim>\<open>list_commits\<close> on arguments that pass the pagination guards: what a
  non-empty malformed \<^verbatim>\<open>since\<close> or \<^verbatim>\<open>until\<close> gives, and that absent or valid bounds go on to the
  backend.
\<close>

lemma list_commits_date_checks:
  assumes "truthy raw" and "parse cfg ''ListCommitsSchema'' raw = Inr a"
    and "\<not> per_page_rejected a" and "\<not> page_rejected a"
    and "number_or_undefined (read_prop a ''per_page'')"
    and "number_or_undefined (read_prop a ''page'')"
  shows "(\<forall>s. read_prop a ''since'' = JStr s \<and> s \<noteq> [] \<and> \<not> isValidISODate cfg s \<longrightarrow>
            handle_call cfg be \<lparr>params_name = ''list_commits'', params_arguments = raw\<rparr> =
              (Inl (Error ''since must be a valid ISO 8601 date (YYYY-MM-DDTHH:MM:SSZ)''), [])) \<and>
         (\<forall>u. (read_prop a ''since'' = JUndefined \<or>
                (\<exists>s. read_prop a ''since'' = JStr s \<and> isValidISODate cfg s)) \<and>
               read_prop a ''until'' = JStr u \<and> u \<noteq> [] \<and> \<not> isValidISODate cfg u \<longrightarrow>
            handle_call cfg be \<lparr>params_name = ''list_commits'', params_arguments = raw\<rparr> =
              (Inl (Error ''until must be a valid ISO 8601 date (YYYY-MM-DDTHH:MM:SSZ)''), [])) \<and>
         ((read_prop a ''since'' = JUndefined \<or>
             (\<exists>s. read_prop a ''since'' = JStr s \<and> isValidISODate cfg s)) \<and>
          (read_prop a ''until'' = JUndefined \<or>
             (\<exists>u. read_prop a ''until'' = JStr u \<and> isValidISODate cfg u)) \<longrightarrow>
            handle_call cfg be \<lparr>params_name = ''list_commits'', params_arguments = raw\<rparr> =
              translate (formatted_reply be ''formatCommitsResponse''
                (Call ''listCommits'' (split_args ''project_id'' a)) []))"
proof -
  note run = handle_call_list_commits [OF assms(1,2), of be]
  note pag = check_pagination_throw(3) [OF assms(3,4)]
  show ?thesis
  proof (intro conjI allI impI)
    fix s
    assume "read_prop a ''since'' = JStr s \<and> s \<noteq> [] \<and> \<not> isValidISODate cfg s"
    then have "truthy_invalid_date cfg (read_prop a ''since'')"
      by (simp add: truthy_invalid_date_def)
    then show "handle_call cfg be \<lparr>params_name = ''list_commits'', params_arguments = raw\<rparr> =
        (Inl (Error ''since must be a valid ISO 8601 date (YYYY-MM-DDTHH:MM:SSZ)''), [])"
      by (simp add: run pag reject_if_def throw_def iso_suffix_def)
  next
    fix u
    assume h: "(read_prop a ''since'' = JUndefined \<or>
                (\<exists>s. read_prop a ''since'' = JStr s \<and> isValidISODate cfg s)) \<and>
               read_prop a ''until'' = JStr u \<and> u \<noteq> [] \<and> \<not> isValidISODate cfg u"
    then have "\<not> truthy_invalid_date cfg (read_prop a ''since'')"
      using absent_or_valid_passes by blast
    moreover from h have "truthy_invalid_date cfg (read_prop a ''until'')"
      by (simp add: truthy_invalid_date_def)
    ultimately show "handle_call cfg be \<lparr>params_name = ''list_commits'', params_arguments = raw\<rparr> =
        (Inl (Error ''until must be a valid ISO 8601 date (YYYY-MM-DDTHH:MM:SSZ)''), [])"
      by (simp add: run pag reject_if_def throw_def iso_suffix_def)
  next
    assume "(read_prop a ''since'' = JUndefined \<or>
             (\<exists>s. read_prop a ''since'' = JStr s \<and> isValidISODate cfg s)) \<and>
          (read_prop a ''until'' = JUndefined \<or>
             (\<exists>u. read_prop a ''until'' = JStr u \<and> isValidISODate cfg u))"
    then have "\<not> truthy_invalid_date cfg (read_prop a ''since'')"
      "\<not> truthy_invalid_date cfg (read_prop a ''until'')"
      using absent_or_valid_passes by blast+
    then show "handle_call cfg be \<lparr>params_name = ''list_commits'', params_arguments = raw\<rparr> =
        translate (formatted_reply be ''formatCommitsResponse''
          (Call ''listCommits'' (split_args ''project_id'' a)) [])"
      by (simp add: run pag reject_if_def)
  qed
qed

lemma list_commits_samples:
  "handle_call (sample_config False) answering
     \<lparr>params_name = ''list_commits'', params_arguments = JObj bad_since\<rparr> =
     (Inl (Error ''since must be a valid ISO 8601 date (YYYY-MM-DDTHH:MM:SSZ)''), []) \<and>
   handle_call (sample_config False) answering
     \<lparr>params_name = ''list_commits'', params_arguments = JObj good_since\<rparr> =
     (Inr (Formatted ''formatCommitsResponse'' (JNum 0)),
      [Call ''listCommits''
         [Val (JStr ''123''), Val (JObj [(''since'', JStr ''2024-01-02T03:04:05Z'')])]])"
proof -
  have p: "\<not> per_page_rejected bad_since" "\<not> page_rejected bad_since"
    "\<not> per_page_rejected good_since" "\<not> page_rejected good_since"
    by (simp_all add: per_page_rejected_def page_rejected_def read_prop_def bad_since_def
          good_since_def)
  have t: "number_or_undefined (read_prop bad_since ''per_page'')"
    "number_or_undefined (read_prop bad_since ''page'')"
    "number_or_undefined (read_prop good_since ''per_page'')"
    "number_or_undefined (read_prop good_since ''page'')"
    by (simp_all add: number_or_undefined_def read_prop_def bad_since_def good_since_def)
  have v: "isValidISODate (sample_config False) = sample_isValidISODate"
    by (simp add: sample_config_def)
  have "handle_call (sample_config False) answering
     \<lparr>params_name = ''list_commits'', params_arguments = JObj bad_since\<rparr> =
     (Inl (Error ''since must be a valid ISO 8601 date (YYYY-MM-DDTHH:MM:SSZ)''), [])"
    using list_commits_date_checks
      [of "JObj bad_since" "sample_config False" bad_since answering,
       OF _ sample_parse_commits(1) p(1,2) t(1,2), THEN conjunct1, rule_format, of "''not-a-date''"]
      sample_dates(1)
    by (simp add: v read_prop_def bad_since_def)
  moreover have "handle_call (sample_config False) answering
     \<lparr>params_name = ''list_commits'', params_arguments = JObj good_since\<rparr> =
     (Inr (Formatted ''formatCommitsResponse'' (JNum 0)),
      [Call ''listCommits''
         [Val (JStr ''123''), Val (JObj [(''since'', JStr ''2024-01-02T03:04:05Z'')])]])"
    using list_commits_date_checks
      [of "JObj good_since" "sample_config False" good_since answering,
       OF _ sample_parse_commits(2) p(3,4) t(3,4), THEN conjunct2, THEN conjunct2]
      sample_dates(2)
    by (simp add: v read_prop_def good_since_def split_args_def rest_without_def
          formatted_reply_def and_then_def await_def done_with_def answering_def)
  ultimately show ?thesis by simp
qed

section \<open>The properties of the specification\<close>

text \<open>
  C1, as amended.  In read-only mode, invoking a catalog operation with \<open>readOnly = False\<close>
  never reaches the backend and always fails.  When an arguments object is present the
  message is \<^verbatim>\<open>Tool 'X' is not available in read-only mode\<close>, whatever the arguments are
  (they are not parsed); when the arguments are absent the presence check comes first and
  the message is \<^verbatim>\<open>Arguments are required\<close>.
\<close>

theorem mutating_tool_denied_in_read_only_mode:
  assumes "t \<in> set ALL_TOOLS" and "\<not> readOnly t" and "GITLAB_READ_ONLY_MODE cfg"
  shows "handle_call cfg be \<lparr>params_name = name t, params_arguments = raw\<rparr> =
           (Inl (Error (if truthy raw then read_only_message (name t)
                        else ''Arguments are required'')), []) \<and>
         str_includes (read_only_message (name t)) ''not available in read-only mode''"
proof (cases "truthy raw")
  case True
  from assms have "not_read_only (name t)" by (simp add: not_read_only_known)
  with True assms(3) show ?thesis
    by (simp add: handle_call_denied read_only_message_includes)
next
  case False
  then show ?thesis by (simp add: handle_call_absent read_only_message_includes)
qed

text \<open>The scenario of the specification: \<^verbatim>\<open>create_issue\<close> with valid arguments in read-only mode.\<close>

theorem mutating_tool_denied_in_read_only_mode_witness:
  "\<lparr>name = ''create_issue'', description = ''Create a new issue in a GitLab project'',
     inputSchema = ''CreateIssueSchema'', readOnly = False\<rparr> \<in> set ALL_TOOLS \<and>
   GITLAB_READ_ONLY_MODE (sample_config True) \<and>
   handle_call (sample_config True) answering
     \<lparr>params_name = ''create_issue'',
      params_arguments = JObj [(''project_id'', JStr ''123''), (''title'', JStr ''Bug'')]\<rparr> =
     (Inl (Error (read_only_message ''create_issue'')), [])"
  using mutating_tool_denied_in_read_only_mode
    [of "\<lparr>name = ''create_issue'', description = ''Create a new issue in a GitLab project'',
          inputSchema = ''CreateIssueSchema'', readOnly = False\<rparr>" "sample_config True" answering
        "JObj [(''project_id'', JStr ''123''), (''title'', JStr ''Bug'')]"]
  by (simp add: ALL_TOOLS_def sample_config_def)

text \<open>
  C1 as stated includes absent arguments.  There the message does not mention read-only
  mode.
\<close>

theorem absent_arguments_in_read_only_mode_counterexample:
  "handle_call (sample_config True) answering
     \<lparr>params_name = ''create_issue'', params_arguments = JUndefined\<rparr> =
     (Inl (Error ''Arguments are required''), []) \<and>
   \<not> str_includes ''Arguments are required'' ''not available in read-only mode''"
  by (simp add: handle_call_absent)

text \<open>
  C2.  The guard \<^verbatim>\<open>args.page && args.page < 1\<close> is skipped for \<^verbatim>\<open>page = 0\<close>, because \<^verbatim>\<open>0\<close> is
  falsy.  Whenever \<^verbatim>\<open>ListIssuesSchema\<close> lets \<^verbatim>\<open>{project_id: "123", page: 0}\<close> through,
  \<^verbatim>\<open>list_issues\<close> does not throw \<^verbatim>\<open>page must be greater than 0\<close>: it issues the backend call
  \<^verbatim>\<open>listIssues("123", {page: 0})\<close> and the outcome is the backend's.
\<close>

theorem list_issues_page_zero_accepted:
  assumes "truthy raw"
    and "parse cfg ''ListIssuesSchema'' raw = Inr [(''project_id'', JStr ''123''), (''page'', JNum 0)]"
  shows "handle_call cfg be \<lparr>params_name = ''list_issues'', params_arguments = raw\<rparr> =
           translate (formatted_reply be ''formatIssuesResponse''
             (Call ''listIssues'' [Val (JStr ''123''), Val (JObj [(''page'', JNum 0)])]) []) \<and>
         snd (handle_call cfg be \<lparr>params_name = ''list_issues'', params_arguments = raw\<rparr>) =
           [Call ''listIssues'' [Val (JStr ''123''), Val (JObj [(''page'', JNum 0)])]]"
proof -
  let ?a = "[(''project_id'', JStr ''123''), (''page'', JNum 0)]"
  have "\<not> per_page_rejected ?a" "\<not> page_rejected ?a"
    by (simp_all add: per_page_rejected_def page_rejected_def read_prop_def)
  then have "check_pagination ?a (check_date_fields cfg ?a
       (formatted_reply be ''formatIssuesResponse'' (Call ''listIssues'' (split_args ''project_id'' ?a)))) =
     formatted_reply be ''formatIssuesResponse''
       (Call ''listIssues'' [Val (JStr ''123''), Val (JObj [(''page'', JNum 0)])])"
    by (simp add: check_pagination_throw no_date_fields split_args_def rest_without_def read_prop_def)
  with handle_call_list_issues [OF assms] show ?thesis by simp
qed

text \<open>With the sample contract and a backend that answers, the invocation succeeds.\<close>

theorem list_issues_page_zero_accepted_witness:
  "handle_call (sample_config False) answering
     \<lparr>params_name = ''list_issues'',
      params_arguments = JObj [(''project_id'', JStr ''123''), (''page'', JNum 0)]\<rparr> =
     (Inr (Formatted ''formatIssuesResponse'' (JNum 0)),
      [Call ''listIssues'' [Val (JStr ''123''), Val (JObj [(''page'', JNum 0)])]])"
  using list_issues_page_zero_accepted
    [of "JObj [(''project_id'', JStr ''123''), (''page'', JNum 0)]" "sample_config False" answering]
  by (simp add: sample_config_def sample_parse_def sample_contract_def parse_object_def
        formatted_reply_def and_then_def await_def done_with_def answering_def)

text \<open>
  C3.  The guard \<^verbatim>\<open>args.per_page && (args.per_page < 1 || args.per_page > 100)\<close> is skipped
  for \<^verbatim>\<open>per_page = 0\<close> in the same way.  Whenever \<^verbatim>\<open>ListIssuesSchema\<close> lets
  \<^verbatim>\<open>{project_id: "123", per_page: 0}\<close> through, \<^verbatim>\<open>list_issues\<close> does not throw
  \<^verbatim>\<open>per_page must be between 1 and 100\<close>: it issues the backend call
  \<^verbatim>\<open>listIssues("123", {per_page: 0})\<close>.  (The values 101, 1 and 100 behave as stated, see
  \<open>pagination_boundaries\<close>.)
\<close>

theorem list_issues_per_page_zero_accepted:
  assumes "truthy raw"
    and "parse cfg ''ListIssuesSchema'' raw =
           Inr [(''project_id'', JStr ''123''), (''per_page'', JNum 0)]"
  shows "handle_call cfg be \<lparr>params_name = ''list_issues'', params_arguments = raw\<rparr> =
           translate (formatted_reply be ''formatIssuesResponse''
             (Call ''listIssues'' [Val (JStr ''123''), Val (JObj [(''per_page'', JNum 0)])]) []) \<and>
         snd (handle_call cfg be \<lparr>params_name = ''list_issues'', params_arguments = raw\<rparr>) =
           [Call ''listIssues'' [Val (JStr ''123''), Val (JObj [(''per_page'', JNum 0)])]]"
proof -
  let ?a = "[(''project_id'', JStr ''123''), (''per_page'', JNum 0)]"
  have "\<not> per_page_rejected ?a" "\<not> page_rejected ?a"
    by (simp_all add: per_page_rejected_def page_rejected_def read_prop_def)
  then have "check_pagination ?a (check_date_fields cfg ?a
       (formatted_reply be ''formatIssuesResponse'' (Call ''listIssues'' (split_args ''project_id'' ?a)))) =
     formatted_reply be ''formatIssuesResponse''
       (Call ''listIssues'' [Val (JStr ''123''), Val (JObj [(''per_page'', JNum 0)])])"
    by (simp add: check_pagination_throw no_date_fields split_args_def rest_without_def read_prop_def)
  with handle_call_list_issues [OF assms] show ?thesis by simp
qed

text \<open>With the sample contract and a backend that answers, the invocation succeeds.\<close>

theorem list_issues_per_page_zero_accepted_witness:
  "handle_call (sample_config False) answering
     \<lparr>params_name = ''list_issues'',
      params_arguments = JObj [(''project_id'', JStr ''123''), (''per_page'', JNum 0)]\<rparr> =
     (Inr (Formatted ''formatIssuesResponse'' (JNum 0)),
      [Call ''listIssues'' [Val (JStr ''123''), Val (JObj [(''per_page'', JNum 0)])]])"
  using list_issues_per_page_zero_accepted
    [of "JObj [(''project_id'', JStr ''123''), (''per_page'', JNum 0)]" "sample_config False" answering]
  by (simp add: sample_config_def sample_parse_def sample_contract_def parse_object_def
        formatted_reply_def and_then_def await_def done_with_def answering_def)

text \<open>
  C4, as amended.  With an arguments object present: in read-only mode a name that is not
  in the catalog and a catalog name with \<open>readOnly = False\<close> fail with the same message,
  \<^verbatim>\<open>Tool 'X' is not available in read-only mode\<close>, and no backend call; the message
  \<^verbatim>\<open>Unknown tool: X\<close> is what a name outside the catalog yields when read-only mode is off.
\<close>

theorem read_only_mode_messages:
  assumes "truthy raw"
  shows "(GITLAB_READ_ONLY_MODE cfg \<and> nm \<notin> set (map name ALL_TOOLS) \<longrightarrow>
            handle_call cfg be \<lparr>params_name = nm, params_arguments = raw\<rparr> =
              (Inl (Error (read_only_message nm)), [])) \<and>
         (GITLAB_READ_ONLY_MODE cfg \<and> (\<exists>t \<in> set ALL_TOOLS. name t = nm \<and> \<not> readOnly t) \<longrightarrow>
            handle_call cfg be \<lparr>params_name = nm, params_arguments = raw\<rparr> =
              (Inl (Error (read_only_message nm)), [])) \<and>
         (\<not> GITLAB_READ_ONLY_MODE cfg \<and> nm \<notin> set (map name ALL_TOOLS) \<longrightarrow>
            handle_call cfg be \<lparr>params_name = nm, params_arguments = raw\<rparr> =
              (Inl (Error (''Unknown tool: '' @ nm)), []))"
proof (intro conjI impI)
  assume "GITLAB_READ_ONLY_MODE cfg \<and> nm \<notin> set (map name ALL_TOOLS)"
  with assms show "handle_call cfg be \<lparr>params_name = nm, params_arguments = raw\<rparr> =
      (Inl (Error (read_only_message nm)), [])"
    by (simp add: handle_call_denied not_read_only_unknown)
next
  assume h: "GITLAB_READ_ONLY_MODE cfg \<and> (\<exists>t \<in> set ALL_TOOLS. name t = nm \<and> \<not> readOnly t)"
  then obtain t where "t \<in> set ALL_TOOLS" "name t = nm" "\<not> readOnly t" by blast
  then have "not_read_only nm" using not_read_only_known by blast
  with assms h show "handle_call cfg be \<lparr>params_name = nm, params_arguments = raw\<rparr> =
      (Inl (Error (read_only_message nm)), [])"
    by (simp add: handle_call_denied)
next
  assume h: "\<not> GITLAB_READ_ONLY_MODE cfg \<and> nm \<notin> set (map name ALL_TOOLS)"
  with assms have "handle_call cfg be \<lparr>params_name = nm, params_arguments = raw\<rparr> =
      translate (dispatch cfg be nm raw [])"
    by (simp add: handle_call_dispatch)
  also from h have "dispatch cfg be nm raw = throw (Error (''Unknown tool: '' @ nm))"
    by (simp add: unknown_default)
  finally show "handle_call cfg be \<lparr>params_name = nm, params_arguments = raw\<rparr> =
      (Inl (Error (''Unknown tool: '' @ nm)), [])"
    by (simp add: throw_def)
qed

text \<open>The same unknown name in both modes.\<close>

theorem read_only_mode_messages_witness:
  "truthy (JObj []) \<and> ''no_such_tool'' \<notin> set (map name ALL_TOOLS) \<and>
   handle_call (sample_config True) answering
     \<lparr>params_name = ''no_such_tool'', params_arguments = JObj []\<rparr> =
     (Inl (Error (read_only_message ''no_such_tool'')), []) \<and>
   handle_call (sample_config False) answering
     \<lparr>params_name = ''no_such_tool'', params_arguments = JObj []\<rparr> =
     (Inl (Error ''Unknown tool: no_such_tool''), [])"
  using read_only_mode_messages [of "JObj []" "sample_config True" "''no_such_tool''" answering]
    read_only_mode_messages [of "JObj []" "sample_config False" "''no_such_tool''" answering]
  by (simp add: ALL_TOOLS_def sample_config_def)

text \<open>
  C4 as stated expects \<^verbatim>\<open>Unknown tool: X\<close> for an unknown name in read-only mode.  The test
  \<^verbatim>\<open>!tool || !tool.readOnly\<close> answers with the read-only message instead.
\<close>

theorem unknown_tool_in_read_only_mode_counterexample:
  "handle_call (sample_config True) answering
     \<lparr>params_name = ''no_such_tool'', params_arguments = JObj []\<rparr> =
     (Inl (Error (''Tool '' @ apostrophe @ ''no_such_tool'' @ apostrophe @
                  '' is not available in read-only mode'')), []) \<and>
   ''Tool '' @ apostrophe @ ''no_such_tool'' @ apostrophe @ '' is not available in read-only mode''
     \<noteq> ''Unknown tool: no_such_tool''"
  by (simp add: handle_call_def sample_config_def not_read_only_def ALL_TOOLS_def throw_def
        read_only_message_def apostrophe_def)

text \<open>
  C5.  Parsing always comes first and a failed parse never reaches the backend
  (\<open>backend_call_implies_parsed\<close>), but a violation of the cross-field rules does: for
  \<^verbatim>\<open>list_issues\<close> with \<^verbatim>\<open>{project_id: "123", page: 0}\<close>, whenever \<^verbatim>\<open>ListIssuesSchema\<close> lets these
  arguments through, the rule that \<^verbatim>\<open>page\<close> be at least 1 is violated, yet the backend call
  \<^verbatim>\<open>listIssues("123", {page: 0})\<close> is issued, and the invocation succeeds when the backend
  answers.
\<close>

theorem cross_field_violation_reaches_backend:
  assumes "truthy raw"
    and "parse cfg ''ListIssuesSchema'' raw = Inr page_zero"
  shows "\<not> spec_cross_field_ok cfg page_zero \<and>
         snd (handle_call cfg be \<lparr>params_name = ''list_issues'', params_arguments = raw\<rparr>) =
           [Call ''listIssues'' [Val (JStr ''123''), Val (JObj [(''page'', JNum 0)])]] \<and>
         (\<forall>v. be [] (Call ''listIssues'' [Val (JStr ''123''), Val (JObj [(''page'', JNum 0)])]) =
                 Inr v \<longrightarrow>
              handle_call cfg be \<lparr>params_name = ''list_issues'', params_arguments = raw\<rparr> =
                (Inr (Formatted ''formatIssuesResponse'' v),
                 [Call ''listIssues'' [Val (JStr ''123''), Val (JObj [(''page'', JNum 0)])]]))"
proof -
  let ?c = "Call ''listIssues'' [Val (JStr ''123''), Val (JObj [(''page'', JNum 0)])]"
  have violated: "\<not> spec_cross_field_ok cfg page_zero"
    by (simp add: spec_cross_field_ok_def spec_page_rule_def read_prop_def page_zero_def)
  have "\<not> per_page_rejected page_zero" "\<not> page_rejected page_zero"
    by (simp_all add: per_page_rejected_def page_rejected_def read_prop_def page_zero_def)
  then have "check_pagination page_zero (check_date_fields cfg page_zero
       (formatted_reply be ''formatIssuesResponse''
          (Call ''listIssues'' (split_args ''project_id'' page_zero)))) =
     formatted_reply be ''formatIssuesResponse'' ?c"
    by (simp add: check_pagination_throw)
       (simp add: page_zero_def no_date_fields split_args_def rest_without_def read_prop_def)
  with handle_call_list_issues [OF assms, of be]
  have run: "handle_call cfg be \<lparr>params_name = ''list_issues'', params_arguments = raw\<rparr> =
      translate (formatted_reply be ''formatIssuesResponse'' ?c [])"
    by simp
  have calls: "snd (handle_call cfg be \<lparr>params_name = ''list_issues'', params_arguments = raw\<rparr>) =
      [?c]"
    by (simp add: run)
  have "handle_call cfg be \<lparr>params_name = ''list_issues'', params_arguments = raw\<rparr> =
      (Inr (Formatted ''formatIssuesResponse'' v), [?c])" if "be [] ?c = Inr v" for v
    using that by (simp add: run formatted_reply_def and_then_def await_def done_with_def)
  with violated calls show ?thesis by blast
qed

text \<open>In read-only mode, with the sample contract and a backend that answers.\<close>

theorem cross_field_violation_reaches_backend_witness:
  "truthy (JObj page_zero) \<and>
   parse (sample_config True) ''ListIssuesSchema'' (JObj page_zero) = Inr page_zero \<and>
   \<not> spec_cross_field_ok (sample_config True) page_zero \<and>
   handle_call (sample_config True) answering
     \<lparr>params_name = ''list_issues'', params_arguments = JObj page_zero\<rparr> =
     (Inr (Formatted ''formatIssuesResponse'' (JNum 0)),
      [Call ''listIssues'' [Val (JStr ''123''), Val (JObj [(''page'', JNum 0)])]])"
proof -
  have p: "parse (sample_config True) ''ListIssuesSchema'' (JObj page_zero) = Inr page_zero"
    by (simp add: sample_config_def sample_parse_def sample_contract_def parse_object_def
          page_zero_def)
  from cross_field_violation_reaches_backend [OF _ p, of answering]
  show ?thesis using p by (simp add: answering_def)
qed

text \<open>
  C6.  \<^verbatim>\<open>push_files\<close> on a parsed list of files (none of them \<^verbatim>\<open>null\<close>): if the calls for the
  files before index \<open>k\<close> succeed and the call for file \<open>k\<close> throws, the backend calls issued
  are exactly the \<^verbatim>\<open>createOrUpdateFile\<close> calls for files \<open>0..k\<close> in input order, nothing is
  issued for the later files or to undo the earlier ones, and the invocation fails with that
  error; if no call throws, there is exactly one call per file, in input order, and the
  reply lists one result per file.
\<close>

theorem push_files_sequential_abort:
  assumes "truthy raw" and "\<not> GITLAB_READ_ONLY_MODE cfg"
    and "parse cfg ''PushFilesSchema'' raw = Inr a"
    and "read_prop a ''files'' = JArr files"
    and "\<forall>f \<in> set files. \<not> nullish f"
  shows "(\<forall>k e. k < length files \<and>
            (\<forall>i<k. \<exists>v. be (map (file_call a) (take i files)) (file_call a (files ! i)) = Inr v) \<and>
            be (map (file_call a) (take k files)) (file_call a (files ! k)) = Inl e \<longrightarrow>
            handle_call cfg be \<lparr>params_name = ''push_files'', params_arguments = raw\<rparr> =
              translate (Inl e, map (file_call a) (take (Suc k) files))) \<and>
         ((\<forall>i<length files.
              \<exists>v. be (map (file_call a) (take i files)) (file_call a (files ! i)) = Inr v) \<longrightarrow>
            (\<exists>results. length results = length files \<and>
               handle_call cfg be \<lparr>params_name = ''push_files'', params_arguments = raw\<rparr> =
                 (Inr (Content [Stringify (JArr results)]), map (file_call a) files)))"
proof -
  have run: "handle_call cfg be \<lparr>params_name = ''push_files'', params_arguments = raw\<rparr> =
      translate (and_then (push_loop be a files [])
                   (\<lambda>results. done_with (Content [Stringify (JArr results)])) [])"
    using assms(1-4)
    by (simp add: handle_call_dispatch dispatch_push_files push_files_def iterate_def)
  show ?thesis
  proof (intro conjI allI impI)
    fix k e
    assume h: "k < length files \<and>
      (\<forall>i<k. \<exists>v. be (map (file_call a) (take i files)) (file_call a (files ! i)) = Inr v) \<and>
      be (map (file_call a) (take k files)) (file_call a (files ! k)) = Inl e"
    then have "push_loop be a files [] [] = (Inl e, [] @ map (file_call a) (take (Suc k) files))"
      using assms(5) by (intro push_loop_abort) auto
    then show "handle_call cfg be \<lparr>params_name = ''push_files'', params_arguments = raw\<rparr> =
        translate (Inl e, map (file_call a) (take (Suc k) files))"
      by (simp add: run and_then_def)
  next
    assume "\<forall>i<length files.
      \<exists>v. be (map (file_call a) (take i files)) (file_call a (files ! i)) = Inr v"
    then obtain rs where "length rs = length files"
      "push_loop be a files [] [] = (Inr ([] @ rs), [] @ map (file_call a) files)"
      using push_loop_complete [of files be "[]" a "[]"] assms(5) by auto
    then have "length rs = length files \<and>
        handle_call cfg be \<lparr>params_name = ''push_files'', params_arguments = raw\<rparr> =
          (Inr (Content [Stringify (JArr rs)]), map (file_call a) files)"
      by (simp add: run and_then_def done_with_def)
    then show "\<exists>results. length results = length files \<and>
        handle_call cfg be \<lparr>params_name = ''push_files'', params_arguments = raw\<rparr> =
          (Inr (Content [Stringify (JArr results)]), map (file_call a) files)"
      by blast
  qed
qed

text \<open>The scenario of the specification: three files, the write of the second one fails.\<close>

theorem push_files_sequential_abort_witness:
  "handle_call (sample_config False) (failing_at 1)
     \<lparr>params_name = ''push_files'', params_arguments = JObj push_request\<rparr> =
     (Inl (Error ''409 Conflict''),
      [Call ''createOrUpdateFile''
         [Val (JStr ''123''), Val (JStr ''a.txt''), Val (JStr ''one''), Val (JStr ''add files''),
          Val (JStr ''main'')],
       Call ''createOrUpdateFile''
         [Val (JStr ''123''), Val (JStr ''b.txt''), Val (JStr ''two''), Val (JStr ''add files''),
          Val (JStr ''main'')]])"
proof -
  have files: "read_prop push_request ''files'' = JArr three_files"
    by (simp add: read_prop_def push_request_def)
  have ok: "\<forall>f \<in> set three_files. \<not> nullish f"
    by (simp add: three_files_def nullish_def)
  have "handle_call (sample_config False) (failing_at 1)
          \<lparr>params_name = ''push_files'', params_arguments = JObj push_request\<rparr> =
        translate (Inl (Error ''409 Conflict''), map (file_call push_request) (take (Suc 1) three_files))"
    using push_files_sequential_abort
      [of "JObj push_request" "sample_config False" push_request three_files "failing_at 1",
       OF _ _ sample_parse_push files ok, THEN conjunct1, rule_format, of 1 "Error ''409 Conflict''"]
    by (simp add: sample_config_def three_files_def failing_at_def answering_def)
  then show ?thesis
    by (simp add: three_files_def file_call_def js_member_def read_prop_def push_request_def)
qed

text \<open>
  C7.  Outside read-only mode the listing is the whole catalog, entry by entry in catalog
  order (53 descriptors); in read-only mode it is the catalog filtered by \<open>readOnly\<close>, which
  keeps the catalog order: the 29 names below, which are the names of the full listing that
  the read-only check of the invocation handler lets through.
\<close>

theorem listing_follows_catalog:
  "list_tools False = map advertise ALL_TOOLS \<and>
   list_tools True = map advertise (filter readOnly ALL_TOOLS) \<and>
   length (list_tools False) = 53 \<and>
   map d_name (list_tools True) =
     filter (\<lambda>nm. \<not> not_read_only nm) (map d_name (list_tools False)) \<and>
   map d_name (list_tools True) =
     [''search_repositories'', ''get_file_contents'', ''list_group_projects'',
      ''get_project_events'', ''list_commits'', ''list_issues'', ''list_merge_requests'',
      ''list_project_wiki_pages'', ''get_project_wiki_page'', ''list_group_wiki_pages'',
      ''get_group_wiki_page'', ''list_project_members'', ''list_group_members'',
      ''list_issue_notes'', ''list_issue_discussions'', ''list_pipelines'', ''get_pipeline'',
      ''get_pipeline_jobs'', ''get_job'', ''get_job_log'', ''list_projects'', ''get_project'',
      ''validate_ci_yaml'', ''get_project_runners'', ''list_shared_runners'',
      ''get_runner_details'', ''validate_runner_tags'', ''get_runner_jobs'',
      ''runner_health_check'']"
proof -
  have full: "list_tools False = map advertise ALL_TOOLS"
    and restricted: "list_tools True = map advertise (filter readOnly ALL_TOOLS)"
    by (simp_all add: list_tools_def)
  have names: "map d_name (map advertise ts) = map name ts" for ts
    by (simp add: advertise_def)
  have gate: "filter (\<lambda>nm. \<not> not_read_only nm) (map name ALL_TOOLS) =
              map name (filter readOnly ALL_TOOLS)"
  proof -
    have "filter (\<lambda>nm. \<not> not_read_only nm) (map name ts) = map name (filter readOnly ts)"
      if "set ts \<subseteq> set ALL_TOOLS" for ts
      using that by (induction ts) (simp_all add: not_read_only_known)
    then show ?thesis by simp
  qed
  have listed: "map name (filter readOnly ALL_TOOLS) =
     [''search_repositories'', ''get_file_contents'', ''list_group_projects'',
      ''get_project_events'', ''list_commits'', ''list_issues'', ''list_merge_requests'',
      ''list_project_wiki_pages'', ''get_project_wiki_page'', ''list_group_wiki_pages'',
      ''get_group_wiki_page'', ''list_project_members'', ''list_group_members'',
      ''list_issue_notes'', ''list_issue_discussions'', ''list_pipelines'', ''get_pipeline'',
      ''get_pipeline_jobs'', ''get_job'', ''get_job_log'', ''list_projects'', ''get_project'',
      ''validate_ci_yaml'', ''get_project_runners'', ''list_shared_runners'',
      ''get_runner_details'', ''validate_runner_tags'', ''get_runner_jobs'',
      ''runner_health_check'']"
    by (simp add: ALL_TOOLS_def)
  have "length ALL_TOOLS = 53"
    by (simp add: ALL_TOOLS_def)
  then have len: "length (list_tools False) = 53"
    by (simp add: full)
  have shown: "map d_name (list_tools True) = map name (filter readOnly ALL_TOOLS)"
    and all_shown: "map d_name (list_tools False) = map name ALL_TOOLS"
    by (simp_all only: full restricted names)
  have agree: "map d_name (list_tools True) =
      filter (\<lambda>nm. \<not> not_read_only nm) (map d_name (list_tools False))"
    by (simp only: shown all_shown gate)
  show ?thesis
    by (intro conjI full restricted len agree) (simp only: shown listed)
qed

text \<open>
  C8.  When parsing fails for an operation that passes the read-only gate, the invocation
  fails without a backend call, and the message is \<^verbatim>\<open>Invalid arguments: \<close> followed by every
  issue of the \<^verbatim>\<open>ZodError\<close>, each as path, colon, reason, joined by a comma and a space; each
  issue's text occurs in the message.
\<close>

theorem structural_violations_all_reported:
  assumes "t \<in> set ALL_TOOLS" and "truthy raw"
    and "\<not> (GITLAB_READ_ONLY_MODE cfg \<and> \<not> readOnly t)"
    and "parse cfg (inputSchema t) raw = Inl issues"
  shows "handle_call cfg be \<lparr>params_name = name t, params_arguments = raw\<rparr> =
           (Inl (Error (''Invalid arguments: '' @ join '', '' (map show_issue issues))), []) \<and>
         (\<forall>e \<in> set issues.
            str_includes (''Invalid arguments: '' @ join '', '' (map show_issue issues))
              (join ''.'' (map show_elem (issue_path e)) @ '': '' @ issue_message e))"
proof -
  from assms(1,3) have "\<not> (GITLAB_READ_ONLY_MODE cfg \<and> not_read_only (name t))"
    by (simp add: not_read_only_known)
  with assms(2) have "handle_call cfg be \<lparr>params_name = name t, params_arguments = raw\<rparr> =
      translate (dispatch cfg be (name t) raw [])"
    by (simp add: handle_call_dispatch)
  also have "\<dots> = (Inl (Error (zod_message issues)), [])"
    by (simp add: dispatch_parse_fail [OF assms(1,4)])
  finally show ?thesis
    using zod_message_includes [of _ issues] by (simp add: zod_message_def show_issue_def)
qed

text \<open>Two wrongly typed fields of \<^verbatim>\<open>list_commits\<close>: both are reported in the one message.\<close>

theorem structural_violations_all_reported_witness:
  "commits_tool \<in> set ALL_TOOLS \<and>
   parse (sample_config False) ''ListCommitsSchema'' (JObj wrong_types) =
     Inl [Issue [Key ''project_id''] ''Expected string, received number'',
          Issue [Key ''since''] ''Expected string, received number''] \<and>
   handle_call (sample_config False) answering
     \<lparr>params_name = ''list_commits'', params_arguments = JObj wrong_types\<rparr> =
     (Inl (Error (''Invalid arguments: project_id: Expected string, received number, '' @
                  ''since: Expected string, received number'')), []) \<and>
   str_includes
     (''Invalid arguments: project_id: Expected string, received number, '' @
      ''since: Expected string, received number'')
     ''since: Expected string, received number''"
proof -
  have p: "parse (sample_config False) (inputSchema commits_tool) (JObj wrong_types) =
     Inl [Issue [Key ''project_id''] ''Expected string, received number'',
          Issue [Key ''since''] ''Expected string, received number'']"
    by (simp add: sample_config_def sample_parse_def sample_contract_def parse_object_def
          wrong_types_def commits_tool_def)
  have g: "\<not> (GITLAB_READ_ONLY_MODE (sample_config False) \<and> \<not> readOnly commits_tool)"
    by (simp add: sample_config_def)
  from structural_violations_all_reported [OF tools_in_catalog _ g p, of answering]
  show ?thesis using p tools_in_catalog by (simp add: commits_tool_def show_issue_def)
qed

text \<open>
  C9.  The guard \<^verbatim>\<open>args.since && !isValidISODate(args.since)\<close> is skipped for an empty string,
  because \<^verbatim>\<open>""\<close> is falsy.  Whenever \<^verbatim>\<open>ListCommitsSchema\<close> lets
  \<^verbatim>\<open>{project_id: "123", since: ""}\<close> through and \<^verbatim>\<open>isValidISODate\<close> rejects the empty string,
  \<^verbatim>\<open>list_commits\<close> does not throw \<^verbatim>\<open>since must be a valid ISO 8601 date\<close>: it issues the backend
  call \<^verbatim>\<open>listCommits("123", {since: ""})\<close> and the outcome is the backend's.  (The sibling
  case \<^verbatim>\<open>list_issues\<close> rejects such a value, see \<open>list_issues_empty_date_rejected\<close>; a
  non-empty malformed value is rejected here too, see \<open>list_commits_date_checks\<close>.)
\<close>

theorem list_commits_empty_since_accepted:
  assumes "truthy raw"
    and "parse cfg ''ListCommitsSchema'' raw = Inr empty_since"
    and "\<not> isValidISODate cfg []"
  shows "\<not> spec_timestamp_rule cfg (read_prop empty_since ''since'') \<and>
         handle_call cfg be \<lparr>params_name = ''list_commits'', params_arguments = raw\<rparr> =
           translate (formatted_reply be ''formatCommitsResponse''
             (Call ''listCommits'' [Val (JStr ''123''), Val (JObj [(''since'', JStr [])])]) []) \<and>
         snd (handle_call cfg be \<lparr>params_name = ''list_commits'', params_arguments = raw\<rparr>) =
           [Call ''listCommits'' [Val (JStr ''123''), Val (JObj [(''since'', JStr [])])]]"
proof -
  let ?c = "Call ''listCommits'' [Val (JStr ''123''), Val (JObj [(''since'', JStr [])])]"
  have violated: "\<not> spec_timestamp_rule cfg (read_prop empty_since ''since'')"
    using assms(3) by (simp add: spec_timestamp_rule_def read_prop_def empty_since_def)
  have "\<not> per_page_rejected empty_since" "\<not> page_rejected empty_since"
    by (simp_all add: per_page_rejected_def page_rejected_def read_prop_def empty_since_def)
  then have pag: "check_pagination empty_since k = k" for k :: "reply action"
    by (simp add: check_pagination_throw)
  have dates: "\<not> truthy_invalid_date cfg (read_prop empty_since ''since'')"
    "\<not> truthy_invalid_date cfg (read_prop empty_since ''until'')"
    by (simp_all add: truthy_invalid_date_def read_prop_def empty_since_def)
  have "split_args ''project_id'' empty_since =
      [Val (JStr ''123''), Val (JObj [(''since'', JStr [])])]"
    by (simp add: split_args_def rest_without_def read_prop_def empty_since_def)
  with handle_call_list_commits [OF assms(1,2), of be] pag dates
  have run: "handle_call cfg be \<lparr>params_name = ''list_commits'', params_arguments = raw\<rparr> =
      translate (formatted_reply be ''formatCommitsResponse'' ?c [])"
    by (simp add: reject_if_def)
  with violated show ?thesis by simp
qed

text \<open>With the sample contract, the sample date check and a backend that answers.\<close>

theorem list_commits_empty_since_accepted_witness:
  "truthy (JObj empty_since) \<and>
   parse (sample_config False) ''ListCommitsSchema'' (JObj empty_since) = Inr empty_since \<and>
   \<not> isValidISODate (sample_config False) [] \<and>
   handle_call (sample_config False) answering
     \<lparr>params_name = ''list_commits'', params_arguments = JObj empty_since\<rparr> =
     (Inr (Formatted ''formatCommitsResponse'' (JNum 0)),
      [Call ''listCommits'' [Val (JStr ''123''), Val (JObj [(''since'', JStr [])])]])"
proof -
  have p: "parse (sample_config False) ''ListCommitsSchema'' (JObj empty_since) = Inr empty_since"
    by (simp add: sample_config_def sample_parse_def sample_contract_def parse_object_def
          empty_since_def)
  have v: "\<not> isValidISODate (sample_config False) []"
    by (simp add: sample_config_def)
  from list_commits_empty_since_accepted [OF _ p v, of answering]
  show ?thesis using p v
    by (simp add: formatted_reply_def and_then_def await_def done_with_def answering_def)
qed

text \<open>
  C10.  With arguments \<^verbatim>\<open>undefined\<close> or \<^verbatim>\<open>null\<close> the invocation fails with
  \<^verbatim>\<open>Arguments are required\<close> and no backend call, for every name, in both modes and
  whatever the schemas and the backend are: neither the catalog nor the read-only flag is
  consulted before.
\<close>

theorem absent_arguments_rejected_first:
  "handle_call cfg be \<lparr>params_name = nm, params_arguments = JUndefined\<rparr> =
     (Inl (Error ''Arguments are required''), []) \<and>
   handle_call cfg be \<lparr>params_name = nm, params_arguments = JNull\<rparr> =
     (Inl (Error ''Arguments are required''), [])"
  by (simp add: handle_call_absent)

end
